theory Spec2Isabelle
  imports Complex_Main
begin

section \<open>Data model of \<open>madcad/cut.py\<close>\<close>

text \<open>
  The mesh store of the cutting engine: points, triangular faces, one group id per face
  (\<open>tracks\<close>) and the group labels. Point and face indices are list positions. The
  coordinates are Python floats in the source; they are idealised as real numbers here
  (no rounding, no NaN, no infinity).
\<close>

type_synonym vec3 = "real \<times> real \<times> real"
type_synonym face = "nat \<times> nat \<times> nat"
type_synonym edge = "nat \<times> nat"

record mesh =
  points :: "vec3 list"
  faces :: "face list"
  tracks :: "nat list"
  groups :: "string list"

text \<open>The Python exceptions the modelled functions can raise.\<close>

datatype error = NameError | IndexError | KeyError | TypeError | ZeroDivisionError

section \<open>Connectivity index\<close>

text \<open>
  \<open>conn\<close> is a Python dict from directed edges to face indices, modelled as a map.
  \<open>face_edges f\<close> is the tuple \<open>((f[0],f[1]), (f[1],f[2]), (f[2],f[0]))\<close> both
  functions loop over.
\<close>

definition face_edges :: "face \<Rightarrow> edge list" where
  "face_edges f = (case f of (a, b, c) \<Rightarrow> [(a, b), (b, c), (c, a)])"

definition registerface :: "'a mesh_scheme \<Rightarrow> (edge \<rightharpoonup> nat) \<Rightarrow> nat \<Rightarrow> error + (edge \<rightharpoonup> nat)" where
  "registerface m conn fi =
     (if fi < length (faces m)
      then Inr (foldl (\<lambda>c e. c(e \<mapsto> fi)) conn (face_edges (faces m ! fi)))
      else Inl IndexError)"

definition unregisterface :: "'a mesh_scheme \<Rightarrow> (edge \<rightharpoonup> nat) \<Rightarrow> nat \<Rightarrow> error + (edge \<rightharpoonup> nat)" where
  "unregisterface m conn fi =
     (if fi < length (faces m)
      then Inr (foldl (\<lambda>c e. if e \<in> dom c then c(e := None) else c) conn
                  (face_edges (faces m ! fi)))
      else Inl IndexError)"

section \<open>Vector algebra\<close>

text \<open>
  Modelled from the spec: \<open>madcad/mathutils.py\<close> (a wrapper of the glm vector library) is
  not under src/. The spec takes these primitives as an already-correct linear-algebra
  library, so they are modelled as the usual operations on real vectors. \<open>normalize\<close>
  divides by the length; on the zero vector the library yields NaN components, the model
  yields zero (division by zero in HOL is zero).
\<close>

definition vadd :: "vec3 \<Rightarrow> vec3 \<Rightarrow> vec3" where
  "vadd u v = (case u of (a, b, c) \<Rightarrow> case v of (x, y, z) \<Rightarrow> (a + x, b + y, c + z))"

definition vsub :: "vec3 \<Rightarrow> vec3 \<Rightarrow> vec3" where
  "vsub u v = (case u of (a, b, c) \<Rightarrow> case v of (x, y, z) \<Rightarrow> (a - x, b - y, c - z))"

definition smul :: "real \<Rightarrow> vec3 \<Rightarrow> vec3" where
  "smul k v = (case v of (x, y, z) \<Rightarrow> (k * x, k * y, k * z))"

definition vneg :: "vec3 \<Rightarrow> vec3" where
  "vneg v = smul (- 1) v"

definition dot :: "vec3 \<Rightarrow> vec3 \<Rightarrow> real" where
  "dot u v = (case u of (a, b, c) \<Rightarrow> case v of (x, y, z) \<Rightarrow> a * x + b * y + c * z)"

definition cross :: "vec3 \<Rightarrow> vec3 \<Rightarrow> vec3" where
  "cross u v = (case u of (a, b, c) \<Rightarrow> case v of (x, y, z) \<Rightarrow>
     (b * z - c * y, c * x - a * z, a * y - b * x))"

definition vlength :: "vec3 \<Rightarrow> real" where
  "vlength v = sqrt (dot v v)"

definition normalize :: "vec3 \<Rightarrow> vec3" where
  "normalize v = smul (1 / vlength v) v"

definition distance :: "vec3 \<Rightarrow> vec3 \<Rightarrow> real" where
  "distance u v = vlength (vsub u v)"

definition project :: "vec3 \<Rightarrow> vec3 \<Rightarrow> vec3" where
  "project v dir = smul (dot v dir) dir"

definition noproject :: "vec3 \<Rightarrow> vec3 \<Rightarrow> vec3" where
  "noproject v dir = vsub v (project v dir)"

text \<open>
  \<open>solve3 r0 r1 r2 b\<close> is \<open>inverse(M) * b\<close> for the matrix \<open>M\<close> with rows \<open>r0\<close>, \<open>r1\<close>,
  \<open>r2\<close> (Cramer's rule), \<open>det3\<close> its determinant. glm's \<open>inverse\<close> multiplies the
  cofactors by \<open>1/det\<close> without any check.
\<close>

definition det3 :: "vec3 \<Rightarrow> vec3 \<Rightarrow> vec3 \<Rightarrow> real" where
  "det3 r0 r1 r2 = dot r0 (cross r1 r2)"

definition solve3 :: "vec3 \<Rightarrow> vec3 \<Rightarrow> vec3 \<Rightarrow> vec3 \<Rightarrow> vec3" where
  "solve3 r0 r1 r2 b = (case b of (b0, b1, b2) \<Rightarrow>
     smul (1 / det3 r0 r1 r2)
       (vadd (smul b0 (cross r1 r2)) (vadd (smul b1 (cross r2 r0)) (smul b2 (cross r0 r1)))))"

section \<open>Names read from the module's globals\<close>

text \<open>
  A name that a Python function reads without binding it is looked up in the globals of
  its module when the line runs. \<open>cut.py\<close> imports every name explicitly and binds, at
  module level, only the imported names, \<open>__all__\<close> and its own functions
  (\<open>module_names\<close>; the names Python adds by itself, such as \<open>__name__\<close>, all start with
  two underscores); it
  binds none of \<open>n\<close> (read by \<open>cut_angle\<close>), \<open>i\<close> and \<open>removal\<close> (read by \<open>cut_edge\<close>),
  \<open>edge\<close> (read by \<open>cut_line\<close>).
  The model takes what such a name is bound to as an optional value: \<open>None\<close> is the
  unbound name, whose read raises \<open>NameError\<close>. \<open>module_globals\<close> is the module as
  written.
\<close>

record globals =
  g_n :: "vec3 option"
  g_i :: "int option"
  g_removal :: "nat set option"
  g_edge :: "nat list option"

definition module_globals :: globals where
  "module_globals = \<lparr>g_n = None, g_i = None, g_removal = None, g_edge = None\<rparr>"

definition module_names :: "string list" where
  "module_names =
    [''vec3'', ''mat3'', ''dmat3'', ''dvec3'', ''dot'', ''cross'', ''project'', ''noproject'',
     ''anglebt'', ''sqrt'', ''cos'', ''acos'', ''asin'', ''spline'', ''interpol1'', ''normalize'',
     ''distance'', ''length'', ''inverse'', ''transpose'', ''NUMPREC'', ''COMPREC'',
     ''Mesh'', ''Web'', ''Wire'', ''lineedges'', ''connef'', ''suites'', ''line_simplification'',
     ''gt'', ''text'', ''settings'', ''__all__'',
     ''cut_width'', ''cut_distance'', ''cut_depth'', ''cut_angle'', ''chamfer'', ''beveltgt'',
     ''bevel'', ''tangentjunction'', ''planeoffsets'', ''interpretcutter'', ''separators'',
     ''cut_line'', ''cut_edge'', ''cut_corner'', ''cut'', ''unproject'', ''arrangeface'',
     ''registerface'', ''unregisterface'', ''segmentsdict'', ''intersection_edge_plane'',
     ''intersection_axis_face'', ''removefaces'', ''faceheight'']"

section \<open>Offset policies\<close>

text \<open>
  \<open>cut_distance\<close> binds nothing and reads only its parameters. \<open>cut_angle\<close> reads \<open>n\<close>,
  which it never binds (its sibling \<open>cut_width\<close> starts with
  \<open>n = normalize(fn1+fn2)\<close>; \<open>cut_angle\<close> has no such line), so \<open>n\<close> is the global.
  \<open>dot\<close> returns a Python float, and \<open>1/s\<close> on a zero float raises.
\<close>

definition cut_distance :: "real \<Rightarrow> vec3 \<Rightarrow> vec3 \<Rightarrow> vec3" where
  "cut_distance depth fn1 fn2 = smul (- depth) (normalize (vadd fn1 fn2))"

definition cut_angle :: "globals \<Rightarrow> real \<Rightarrow> vec3 \<Rightarrow> vec3 \<Rightarrow> error + vec3" where
  "cut_angle g depth fn1 fn2 =
     (case g_n g of
        None \<Rightarrow> Inl NameError
      | Some n \<Rightarrow>
          (let s = dot fn1 n
           in if s = 0 then Inl ZeroDivisionError
              else Inr (smul (- depth / 2 * (1 / s - s)) n)))"

text \<open>What the spec says the angle policy returns, with \<open>n\<close> the normalized bisector.\<close>

definition cut_angle_spec :: "real \<Rightarrow> vec3 \<Rightarrow> vec3 \<Rightarrow> vec3" where
  "cut_angle_spec depth fn1 fn2 =
     (let n = normalize (vadd fn1 fn2); s = dot fn1 n
      in smul (- depth / 2 * (1 / s - s)) n)"

section \<open>Selecting the policy\<close>

text \<open>
  The \<open>cutter\<close> argument is any Python value. \<open>PyFunc k\<close> is a callable object (the
  \<open>k\<close>-th, whatever it computes); a tuple is not callable. The result of
  \<open>interpretcutter\<close> is a callable again: the argument itself, or the closure
  \<open>lambda fn1,fn2: func(arg, fn1, fn2)\<close> over the global \<open>func\<close> found under the name
  \<open>'cut_'+cutter[0]\<close> and over \<open>arg = cutter[1]\<close>.
\<close>

datatype pyval =
    PyNone
  | PyNum real
  | PyStr string
  | PyTuple "pyval list"
  | PyList "pyval list"
  | PyFunc nat

datatype cutter_fn = Closure string pyval | Given nat

definition interpretcutter :: "pyval \<Rightarrow> error + cutter_fn" where
  "interpretcutter cutter =
     (case cutter of
        PyTuple items \<Rightarrow>
          (case items of
             [] \<Rightarrow> Inl IndexError
           | x # rest \<Rightarrow>
               (case x of
                  PyStr name \<Rightarrow>
                    if ''cut_'' @ name \<in> set module_names
                    then (case rest of
                            [] \<Rightarrow> Inl IndexError
                          | arg # _ \<Rightarrow> Inr (Closure (''cut_'' @ name) arg))
                    else Inl KeyError
                | _ \<Rightarrow> Inl TypeError))
      | PyFunc k \<Rightarrow> Inr (Given k)
      | _ \<Rightarrow> Inl TypeError)"

text \<open>
  The values \<open>interpretcutter\<close> returns a callable for, read off its code: a callable, or a
  tuple \<open>(name, arg, ...)\<close> with \<open>'cut_'+name\<close> among the module's names.
\<close>

definition accepted :: "pyval \<Rightarrow> bool" where
  "accepted cutter =
     (case cutter of
        PyFunc k \<Rightarrow> True
      | PyTuple (PyStr name # arg # rest) \<Rightarrow>
          name \<in> set [''width'', ''distance'', ''depth'', ''angle'', ''line'', ''edge'', ''corner'']
      | _ \<Rightarrow> False)"

text \<open>The four built-in policies of the spec (and of the module's \<open>__all__\<close>).\<close>

definition builtin_policies :: "string list" where
  "builtin_policies = [''width'', ''distance'', ''depth'', ''angle'']"

section \<open>Separator planes\<close>

text \<open>
  A separator is the tuple \<open>(origin, plane normal, axis direction)\<close>; an entry of the
  list is \<open>None\<close> where the two neighbouring offset planes are parallel. The list has one
  entry per value of \<open>i\<close> in \<open>range(1, l if line[0]!=line[-1] else l+1)\<close>, with
  \<open>l = len(line)-1\<close>: entry \<open>k\<close> belongs to the polyline vertex \<open>line[k+1]\<close>.
  \<open>mesh.precision()\<close> is a method of \<open>Mesh\<close> (\<open>madcad/mesh.py\<close>, not under src/); the
  value it returns is the parameter \<open>prec\<close>. A read past the end of \<open>offsets\<close>, \<open>line\<close>
  or \<open>mesh.points\<close> raises \<open>IndexError\<close>. \<open>separator_plane\<close> is the body of the
  non-parallel branch: \<open>inverse(transpose(dmat3(n1, n2, d)))\<close> is the inverse of the matrix
  with rows \<open>n1\<close>, \<open>n2\<close>, \<open>d\<close>.
\<close>

type_synonym sep = "vec3 \<times> vec3 \<times> vec3"

definition separator_plane :: "vec3 \<Rightarrow> vec3 \<Rightarrow> vec3 \<Rightarrow> vec3 \<Rightarrow> vec3 \<Rightarrow> sep" where
  "separator_plane n1 n2 d p pprev =
     (let d = normalize d;
          intersect = solve3 n1 n2 d (dot (vadd p n1) n1, dot (vadd p n2) n2, dot p d);
          n = normalize (cross d (vsub intersect p));
          n = (if dot n (vsub p pprev) > 0 then vneg n else n)
      in (intersect, n, d))"

definition separator_at :: "real \<Rightarrow> vec3 list \<Rightarrow> nat list \<Rightarrow> vec3 list \<Rightarrow> nat \<Rightarrow> error + sep option" where
  "separator_at prec pts line offsets i =
     (let l = length line - 1 in
      if l = 0 then Inl ZeroDivisionError
      else if (i - 1) mod l < length offsets \<and> i mod l < length offsets
      then
        (let n1 = offsets ! ((i - 1) mod l); n2 = offsets ! (i mod l); d = cross n1 n2
         in if vlength d > prec
            then
              (if i < length line \<and> line ! i < length pts \<and> line ! (i - 1) < length pts
               then Inr (Some (separator_plane n1 n2 d (pts ! (line ! i)) (pts ! (line ! (i - 1)))))
               else Inl IndexError)
            else Inr None)
      else Inl IndexError)"

text \<open>The first loop of \<open>separators\<close>: one entry per index, stopping at the first error.\<close>

fun collect :: "(nat \<Rightarrow> error + 'a) \<Rightarrow> nat list \<Rightarrow> error + 'a list" where
  "collect f [] = Inr []"
| "collect f (i # is) =
     (case f i of
        Inl e \<Rightarrow> Inl e
      | Inr x \<Rightarrow> (case collect f is of Inl e \<Rightarrow> Inl e | Inr xs \<Rightarrow> Inr (x # xs)))"

definition separators_raw :: "real \<Rightarrow> vec3 list \<Rightarrow> nat list \<Rightarrow> vec3 list \<Rightarrow> error + sep option list" where
  "separators_raw prec pts line offsets =
     (if line = [] then Inl IndexError
      else
        (let l = length line - 1;
             stop = (if hd line \<noteq> last line then l else l + 1)
         in collect (separator_at prec pts line offsets) [1..<stop]))"

text \<open>
  The two completion loops, as index loops over the list updated in place:
  \<open>for i in range(1,len(segments))\<close> copies entry \<open>i-1\<close> into an undefined entry \<open>i\<close>,
  then \<open>for i in reversed(range(len(segments)-1))\<close> copies entry \<open>i+1\<close> into an
  undefined entry \<open>i\<close>.
\<close>

definition fill_forward :: "'a option list \<Rightarrow> 'a option list" where
  "fill_forward segs =
     foldl (\<lambda>s i. if s ! i = None then s[i := s ! (i - 1)] else s) segs [1..<length segs]"

definition fill_backward :: "'a option list \<Rightarrow> 'a option list" where
  "fill_backward segs =
     foldl (\<lambda>s i. if s ! i = None then s[i := s ! (i + 1)] else s) segs
       (rev [0..<length segs - 1])"

definition separators :: "real \<Rightarrow> vec3 list \<Rightarrow> nat list \<Rightarrow> vec3 list \<Rightarrow> error + sep option list" where
  "separators prec pts line offsets =
     (case separators_raw prec pts line offsets of
        Inl e \<Rightarrow> Inl e
      | Inr segments \<Rightarrow> Inr (fill_backward (fill_forward segments)))"

text \<open>
  For stating what the completion gives: the last defined entry of a list, and the first
  one.
\<close>

fun last_defined :: "'a option list \<Rightarrow> 'a option" where
  "last_defined [] = None"
| "last_defined (x # xs) = (case last_defined xs of Some v \<Rightarrow> Some v | None \<Rightarrow> x)"

fun first_defined :: "'a option list \<Rightarrow> 'a option" where
  "first_defined [] = None"
| "first_defined (x # xs) = (case x of Some v \<Rightarrow> Some v | None \<Rightarrow> first_defined xs)"

text \<open>
  Whether the two offset planes around entry \<open>k\<close> (vertex \<open>line[k+1]\<close>) are parallel up
  to the precision: \<open>length(cross(n1,n2)) > mesh.precision()\<close> fails.
\<close>

definition degenerate :: "real \<Rightarrow> nat list \<Rightarrow> vec3 list \<Rightarrow> nat \<Rightarrow> bool" where
  "degenerate prec line offsets k =
     (let l = length line - 1
      in vlength (cross (offsets ! (k mod l)) (offsets ! (Suc k mod l))) \<le> prec)"

text \<open>
  The value the forward loop leaves at entry \<open>m\<close>, and the value the backward loop
  leaves there, in closed form (used in the proofs only).
\<close>

definition forward_value :: "'a option list \<Rightarrow> nat \<Rightarrow> 'a option" where
  "forward_value segs m = (case segs ! m of Some v \<Rightarrow> Some v | None \<Rightarrow> last_defined (take m segs))"

definition backward_value :: "'a option list \<Rightarrow> nat \<Rightarrow> 'a option" where
  "backward_value t m = (case t ! m of Some v \<Rightarrow> Some v | None \<Rightarrow> first_defined (drop (Suc m) t))"

section \<open>The start of \<open>cut_line\<close>\<close>

text \<open>
  Lines 308 to 317 of \<open>cut_line\<close>, up to the evaluation of \<open>range(1,len(edge))\<close>: the
  separators, the flag \<open>circular\<close>, then the read of the name \<open>edge\<close>, which is neither a
  parameter nor a local of \<open>cut_line\<close>. The value is what the loop header needs: the
  separators, the flag and \<open>len(edge)\<close>.
\<close>

definition cut_line_start :: "globals \<Rightarrow> real \<Rightarrow> mesh \<Rightarrow> nat list \<Rightarrow> vec3 list \<Rightarrow>
    error + (sep option list \<times> bool \<times> nat)" where
  "cut_line_start g mprec m line offsets =
     (case separators mprec (points m) line offsets of
        Inl e \<Rightarrow> Inl e
      | Inr segments \<Rightarrow>
          if line = [] then Inl IndexError
          else
            (let circular = (hd line = last line)
             in case g_edge g of
                  None \<Rightarrow> Inl NameError
                | Some edge \<Rightarrow> Inr (segments, circular, length edge)))"

section \<open>Plane offsets\<close>

text \<open>
  \<open>segmentsdict(line)\<close>: the dict from each polyline edge to its rank, a later rank
  replacing an earlier one for the same edge.
\<close>

definition segmentsdict :: "nat list \<Rightarrow> (edge \<rightharpoonup> nat)" where
  "segmentsdict line =
     foldl (\<lambda>segments i. segments((line ! i, line ! (i + 1)) \<mapsto> i)) Map.empty
       [0..<length line - 1]"

text \<open>
  Modelled from the spec: \<open>Mesh.facenormal\<close> (the "face normal" query of the mesh store
  interface) is in \<open>madcad/mesh.py\<close>, not under src/. It is taken as the unit normal of the
  triangle, oriented by the order of its corners.
\<close>

definition facenormal :: "mesh \<Rightarrow> face \<Rightarrow> error + vec3" where
  "facenormal m f = (case f of (a, b, c) \<Rightarrow>
     if a < length (points m) \<and> b < length (points m) \<and> c < length (points m)
     then Inr (normalize (cross (vsub (points m ! b) (points m ! a))
                                (vsub (points m ! c) (points m ! a))))
     else Inl IndexError)"

text \<open>
  The loop of lines 234 to 237 over the faces and their three edges, filling the two
  dicts \<open>adjacents[0]\<close> (left) and \<open>adjacents[1]\<close> (right) from edge rank to face normal.
\<close>

fun adjacent_edges :: "mesh \<Rightarrow> (edge \<rightharpoonup> nat) \<Rightarrow> face \<Rightarrow> edge list \<Rightarrow>
    (nat \<rightharpoonup> vec3) \<times> (nat \<rightharpoonup> vec3) \<Rightarrow> error + ((nat \<rightharpoonup> vec3) \<times> (nat \<rightharpoonup> vec3))" where
  "adjacent_edges m segts f [] adj = Inr adj"
| "adjacent_edges m segts f (e # es) adj =
     (case segts e of
        Some k \<Rightarrow>
          (case facenormal m f of
             Inl err \<Rightarrow> Inl err
           | Inr nrm \<Rightarrow> adjacent_edges m segts f es ((fst adj)(k \<mapsto> nrm), snd adj))
      | None \<Rightarrow>
          (case segts (snd e, fst e) of
             Some k \<Rightarrow>
               (case facenormal m f of
                  Inl err \<Rightarrow> Inl err
                | Inr nrm \<Rightarrow> adjacent_edges m segts f es (fst adj, (snd adj)(k \<mapsto> nrm)))
           | None \<Rightarrow> adjacent_edges m segts f es adj))"

fun adjacent_faces :: "mesh \<Rightarrow> (edge \<rightharpoonup> nat) \<Rightarrow> face list \<Rightarrow>
    (nat \<rightharpoonup> vec3) \<times> (nat \<rightharpoonup> vec3) \<Rightarrow> error + ((nat \<rightharpoonup> vec3) \<times> (nat \<rightharpoonup> vec3))" where
  "adjacent_faces m segts [] adj = Inr adj"
| "adjacent_faces m segts (f # fs) adj =
     (case adjacent_edges m segts f (face_edges f) adj of
        Inl err \<Rightarrow> Inl err
      | Inr adj \<Rightarrow> adjacent_faces m segts fs adj)"

text \<open>
  The loop of lines 240 to 245. What a call \<open>cutter(fn1, fn2)\<close> of the interpreted cutter
  gives is the parameter \<open>call\<close>: the cutter is the caller's function, or a closure
  over a function of the module and the caller's parameter. A missing key of
  \<open>adjacents\<close> raises \<open>KeyError\<close>.
\<close>

fun offsets_loop :: "(cutter_fn \<Rightarrow> vec3 \<Rightarrow> vec3 \<Rightarrow> error + vec3) \<Rightarrow> mesh \<Rightarrow> nat list \<Rightarrow> cutter_fn \<Rightarrow>
    (nat \<rightharpoonup> vec3) \<times> (nat \<rightharpoonup> vec3) \<Rightarrow> nat list \<Rightarrow> error + vec3 list" where
  "offsets_loop call m line f adj [] = Inr []"
| "offsets_loop call m line f adj (i # is) =
     (case (fst adj i, snd adj i) of
        (Some fn1, Some fn2) \<Rightarrow>
          (case call f fn1 fn2 of
             Inl err \<Rightarrow> Inl err
           | Inr offset \<Rightarrow>
               if i + 1 < length line \<and> line ! (i + 1) < length (points m)
                  \<and> line ! i < length (points m)
               then
                 (let offset =
                        (if dot (cross fn1 fn2)
                              (vsub (points m ! (line ! (i + 1))) (points m ! (line ! i))) < 0
                         then vneg offset else offset)
                  in case offsets_loop call m line f adj is of
                       Inl err \<Rightarrow> Inl err
                     | Inr offsets \<Rightarrow> Inr (offset # offsets))
               else Inl IndexError)
      | _ \<Rightarrow> Inl KeyError)"

text \<open>
  \<open>planeoffsets(mesh, line, cutter)\<close>: its first statement interprets the cutter; it only
  reads the mesh.
\<close>

definition planeoffsets :: "(cutter_fn \<Rightarrow> vec3 \<Rightarrow> vec3 \<Rightarrow> error + vec3) \<Rightarrow> mesh \<Rightarrow> nat list \<Rightarrow> pyval \<Rightarrow>
    error + vec3 list" where
  "planeoffsets call m line cutter =
     (case interpretcutter cutter of
        Inl err \<Rightarrow> Inl err
      | Inr f \<Rightarrow>
          (case adjacent_faces m (segmentsdict line) (faces m) (Map.empty, Map.empty) of
             Inl err \<Rightarrow> Inl err
           | Inr adj \<Rightarrow> offsets_loop call m line f adj [0..<length line - 1]))"

section \<open>Chamfer\<close>

text \<open>
  \<open>cut.py\<close> defines \<open>chamfer\<close> twice, at line 37 and at line 56; the second \<open>def\<close> rebinds
  the name, so a call of \<open>chamfer\<close> runs the second body, modelled here. Its last block,
  which appended the group \<open>'junction'\<close> and the faces of the flat surfaces, is commented
  out (lines 76 to 86).

  \<open>mesh.vertexnormals()\<close> and \<open>suites\<close> are in \<open>madcad/mesh.py\<close>, not under src/: the list
  of normals and the list of point suites they return are given by the parameters
  \<open>vertexnormals\<close> and \<open>suites\<close>. \<open>corners\<close> is a dict in insertion order, modelled as an
  association list.
\<close>

fun dict_get :: "(nat \<times> real) list \<Rightarrow> nat \<Rightarrow> real \<Rightarrow> real" where
  "dict_get [] k d = d"
| "dict_get ((k', v) # kvs) k d = (if k' = k then v else dict_get kvs k d)"

fun dict_set :: "(nat \<times> real) list \<Rightarrow> nat \<Rightarrow> real \<Rightarrow> (nat \<times> real) list" where
  "dict_set [] k v = [(k, v)]"
| "dict_set ((k', v') # kvs) k v = (if k' = k then (k, v) # kvs else (k', v') # dict_set kvs k v)"

text \<open>
  \<open>corners[p] = min(corners.get(p, 0), dot(o, o) / dot(o, normals[p]))\<close> for an end \<open>p\<close> of
  the line and the offset \<open>o\<close> of its end edge; the quotient of two Python floats raises
  on a zero divisor.
\<close>

definition set_corner :: "vec3 list \<Rightarrow> nat \<Rightarrow> vec3 \<Rightarrow> (nat \<times> real) list \<Rightarrow> error + (nat \<times> real) list" where
  "set_corner normals p off corners =
     (if \<not> p < length normals then Inl IndexError
      else if dot off (normals ! p) = 0 then Inl ZeroDivisionError
      else Inr (dict_set corners p (min (dict_get corners p 0) (dot off off / dot off (normals ! p)))))"

text \<open>The loop \<open>for line in lines\<close> of lines 64 to 68.\<close>

fun chamfer_offsets :: "(cutter_fn \<Rightarrow> vec3 \<Rightarrow> vec3 \<Rightarrow> error + vec3) \<Rightarrow> mesh \<Rightarrow> pyval \<Rightarrow> vec3 list \<Rightarrow>
    nat list list \<Rightarrow> vec3 list list \<Rightarrow> (nat \<times> real) list \<Rightarrow>
    error + (vec3 list list \<times> (nat \<times> real) list)" where
  "chamfer_offsets call m cutter normals [] offs corners = Inr (offs, corners)"
| "chamfer_offsets call m cutter normals (line # lines) offs corners =
     (case planeoffsets call m line cutter of
        Inl err \<Rightarrow> Inl err
      | Inr offsets \<Rightarrow>
          if line = [] \<or> offsets = [] then Inl IndexError
          else
            (case set_corner normals (hd line) (hd offsets) corners of
               Inl err \<Rightarrow> Inl err
             | Inr corners \<Rightarrow>
                 (case set_corner normals (last line) (last offsets) corners of
                    Inl err \<Rightarrow> Inl err
                  | Inr corners \<Rightarrow>
                      chamfer_offsets call m cutter normals lines (offs @ [offsets]) corners)))"

text \<open>
  The loop of lines 73 and 74 calls \<open>cut(mesh, line, offsets)\<close>. The \<open>def cut\<close> of line 530
  does not parse (line 533) and reads names the module never binds; what a call of it
  does to the mesh is left open as the parameter \<open>cut_fn\<close>.
\<close>

fun chamfer_cuts :: "(mesh \<Rightarrow> nat list \<Rightarrow> vec3 list \<Rightarrow> error + mesh) \<Rightarrow> mesh \<Rightarrow>
    (nat list \<times> vec3 list) list \<Rightarrow> error + mesh" where
  "chamfer_cuts cut_fn m [] = Inr m"
| "chamfer_cuts cut_fn m ((line, offsets) # rest) =
     (case cut_fn m line offsets of
        Inl err \<Rightarrow> Inl err
      | Inr m \<Rightarrow> chamfer_cuts cut_fn m rest)"

text \<open>
  \<open>chamfer(mesh, edges, cutter)\<close>; the result is the mesh as the call leaves it. The loop
  of lines 71 and 72 calls \<open>cut_corner(mesh, point, offset*normals[point])\<close> with three
  arguments, where \<open>cut_corner\<close> has six parameters without defaults: its first pass
  raises \<open>TypeError\<close>.
\<close>

definition chamfer :: "(mesh \<Rightarrow> vec3 list) \<Rightarrow> (edge list \<Rightarrow> nat list list) \<Rightarrow>
    (cutter_fn \<Rightarrow> vec3 \<Rightarrow> vec3 \<Rightarrow> error + vec3) \<Rightarrow> (mesh \<Rightarrow> nat list \<Rightarrow> vec3 list \<Rightarrow> error + mesh) \<Rightarrow>
    mesh \<Rightarrow> edge list \<Rightarrow> pyval \<Rightarrow> error + mesh" where
  "chamfer vertexnormals suites call cut_fn m edges cutter =
     (let normals = vertexnormals m;
          lines = suites edges
      in case chamfer_offsets call m cutter normals lines [] [] of
           Inl err \<Rightarrow> Inl err
         | Inr (offs, corners) \<Rightarrow>
             (case corners of
                (point, offset) # _ \<Rightarrow> Inl TypeError
              | [] \<Rightarrow> chamfer_cuts cut_fn m (zip lines offs)))"

section \<open>Geometry helpers of the propagators\<close>

text \<open>
  Python indexes a 3-tuple with \<open>j\<close>, \<open>j-1\<close> and \<open>j-2\<close> for \<open>j\<close> in \<open>range(3)\<close>: the
  indices \<open>-2 .. 2\<close>, the negative ones counting from the end. \<open>tnth\<close> reads such an
  index, \<open>tupd\<close> writes it.
\<close>

definition tnth :: "'a \<times> 'a \<times> 'a \<Rightarrow> int \<Rightarrow> 'a" where
  "tnth t k = (case t of (a, b, c) \<Rightarrow>
     (let r = k mod 3 in if r = 0 then a else if r = 1 then b else c))"

definition tupd :: "'a \<times> 'a \<times> 'a \<Rightarrow> int \<Rightarrow> 'a \<Rightarrow> 'a \<times> 'a \<times> 'a" where
  "tupd t k v = (case t of (a, b, c) \<Rightarrow>
     (let r = k mod 3 in if r = 0 then (v, b, c) else if r = 1 then (a, v, c) else (a, b, v)))"

text \<open>
  Modelled from the spec: \<open>Mesh.facepoints\<close> (the "face points" query by index of the mesh
  store interface) is in \<open>madcad/mesh.py\<close>, not under src/. It reads the face and its
  three points; a read past the end of a list raises \<open>IndexError\<close>.
\<close>

definition facepoints :: "'a mesh_scheme \<Rightarrow> nat \<Rightarrow> error + (vec3 \<times> vec3 \<times> vec3)" where
  "facepoints m fi =
     (if fi < length (faces m)
      then (case faces m ! fi of (a, b, c) \<Rightarrow>
              if a < length (points m) \<and> b < length (points m) \<and> c < length (points m)
              then Inr (points m ! a, points m ! b, points m ! c)
              else Inl IndexError)
      else Inl IndexError)"

text \<open>
  \<open>faceheight\<close>: the least of the three heights
  \<open>length(noproject(f[i-2]-f[i], normalize(f[i-1]-f[i])))\<close>, \<open>i\<close> in \<open>range(3)\<close>. Where two
  corners of the face are the same point, one of the three normalizes the zero vector
  (see the remark on \<open>normalize\<close> above).
\<close>

definition height_at :: "vec3 \<times> vec3 \<times> vec3 \<Rightarrow> int \<Rightarrow> real" where
  "height_at f i =
     vlength (noproject (vsub (tnth f (i - 2)) (tnth f i))
                        (normalize (vsub (tnth f (i - 1)) (tnth f i))))"

definition faceheight :: "'a mesh_scheme \<Rightarrow> nat \<Rightarrow> error + real" where
  "faceheight m fi =
     (case facepoints m fi of
        Inl e \<Rightarrow> Inl e
      | Inr f \<Rightarrow> Inr (min (min (height_at f 0) (height_at f 1)) (height_at f 2)))"

text \<open>
  \<open>intersection_edge_plane(axis, edge, prec)\<close>; \<open>NUMPREC\<close> is a constant of
  \<open>madcad/mathutils.py\<close> (not under src/), taken as the parameter \<open>numprec\<close>.
\<close>

definition intersection_edge_plane :: "real \<Rightarrow> vec3 \<times> vec3 \<Rightarrow> vec3 \<times> vec3 \<Rightarrow> real \<Rightarrow> vec3 option" where
  "intersection_edge_plane numprec axis edge prec =
     (let dist = dot (vsub (fst axis) (fst edge)) (snd axis);
          compl = dot (vsub (fst axis) (snd edge)) (snd axis)
      in if \<bar>dist\<bar> \<le> prec then Some (fst edge)
         else if \<bar>compl\<bar> \<le> prec then Some (snd edge)
         else if dist * compl > 0 then None
         else
           (let edgedir = vsub (snd edge) (fst edge)
            in if \<bar>dot edgedir (snd axis)\<bar> \<le> numprec then None
               else
                 (let edgedir = normalize edgedir
                  in Some (vadd (fst edge)
                             (smul (1 / dot edgedir (snd axis)) (smul dist edgedir))))))"

text \<open>
  \<open>intersection_axis_face(axis, face)\<close>: \<open>coords\<close> solves
  \<open>coords[0]*(face[1]-face[0]) + coords[1]*(face[2]-face[0]) + coords[2]*axis[1]
  = axis[0]-face[0]\<close> (the inverse of the matrix with these three columns, by Cramer's
  rule). With a zero determinant the library yields infinities and NaN, for which the
  test below fails; so does the model, where the quotients are zero.
\<close>

definition solve3_cols :: "vec3 \<Rightarrow> vec3 \<Rightarrow> vec3 \<Rightarrow> vec3 \<Rightarrow> vec3" where
  "solve3_cols c0 c1 c2 b =
     (let det = det3 c0 c1 c2
      in (det3 b c1 c2 / det, det3 c0 b c2 / det, det3 c0 c1 b / det))"

definition intersection_axis_face :: "vec3 \<times> vec3 \<Rightarrow> vec3 \<times> vec3 \<times> vec3 \<Rightarrow> vec3 option" where
  "intersection_axis_face axis face =
     (case face of (f0, f1, f2) \<Rightarrow>
        (case solve3_cols (vsub f1 f0) (vsub f2 f0) (snd axis) (vsub (fst axis) f0) of
           (c0, c1, c2) \<Rightarrow>
             if 0 < c0 \<and> 0 < c1 \<and> c0 + c1 < 1
             then Some (vadd f0 (vadd (smul c0 (vsub f1 f0)) (smul c1 (vsub f2 f0))))
             else None))"

text \<open>
  Modelled from the spec: \<open>Mesh.usepointat\<close> is in \<open>madcad/mesh.py\<close>, not under src/. The
  spec describes it as the tolerance-based locate-or-create operation: the index of an
  existing point within the tolerance of the given one, or else the index of the point
  newly appended.
\<close>

fun pointat :: "vec3 list \<Rightarrow> vec3 \<Rightarrow> real \<Rightarrow> nat option" where
  "pointat [] p neigh = None"
| "pointat (q # qs) p neigh =
     (if distance q p \<le> neigh then Some 0 else map_option Suc (pointat qs p neigh))"

definition usepointat :: "vec3 list \<Rightarrow> vec3 \<Rightarrow> real \<Rightarrow> vec3 list \<times> nat" where
  "usepointat pts p neigh =
     (case pointat pts p neigh of
        Some i \<Rightarrow> (pts, i)
      | None \<Rightarrow> (pts @ [p], length pts))"

section \<open>Segment simplifier: the last phase of \<open>cut_line\<close>\<close>

text \<open>
  Lines 329 to 350 of \<open>cut_line\<close>, from the comment \<open># simplify cuts\<close> to the \<open>return\<close>,
  as a function of what the phase reads: the mesh, the list \<open>result\<close> of segment groups
  (each group listed in the order the loop \<open>for a,b in grp\<close> visits it), the set
  \<open>removal\<close> and \<open>prec\<close>. \<open>line_simplification\<close> and \<open>Web\<close> are in \<open>madcad/mesh.py\<close>, not
  under src/: the reindexing dict that \<open>line_simplification(Web(mesh.points, grp), prec)\<close>
  returns is the parameter \<open>simp\<close>, a map.
\<close>

definition reindexed :: "(nat \<rightharpoonup> nat) \<Rightarrow> nat \<Rightarrow> nat" where
  "reindexed reindex a = (case reindex a of Some c \<Rightarrow> c | None \<Rightarrow> a)"

text \<open>
  The body of \<open>for i,grp in enumerate(result)\<close>: the group with its ends reindexed and
  the collapsed segments dropped, and \<open>merges.update(reindex)\<close>.
\<close>

fun simplify_groups :: "(vec3 list \<Rightarrow> edge list \<Rightarrow> real \<Rightarrow> (nat \<rightharpoonup> nat)) \<Rightarrow> vec3 list \<Rightarrow> real \<Rightarrow>
    edge list list \<Rightarrow> (nat \<rightharpoonup> nat) \<Rightarrow> edge list list \<times> (nat \<rightharpoonup> nat)" where
  "simplify_groups simp pts prec [] merges = ([], merges)"
| "simplify_groups simp pts prec (grp # rest) merges =
     (let reindex = simp pts grp prec;
          lines = filter (\<lambda>(c, d). c \<noteq> d)
                    (map (\<lambda>(a, b). (reindexed reindex a, reindexed reindex b)) grp);
          (result, merges) = simplify_groups simp pts prec rest (merges ++ reindex)
      in (lines # result, merges))"

text \<open>
  \<open>mesh.faces[i] = (merges.get(f[0],f[0]), merges.get(f[1],f[1]), merges.get(f[2],f[2]))\<close>
\<close>

definition merge_face :: "(nat \<rightharpoonup> nat) \<Rightarrow> face \<Rightarrow> face" where
  "merge_face merges f = (case f of (a, b, c) \<Rightarrow>
     (reindexed merges a, reindexed merges b, reindexed merges c))"

text \<open>
  \<open>removefaces(mesh, crit)\<close>: the loop over \<open>range(len(mesh.faces))\<close> that collects the
  faces and tracks to keep, then the two assignments. \<open>crit\<close> may raise, and so does the
  read of \<open>mesh.tracks[i]\<close> past the end.
\<close>

fun removefaces_loop :: "face list \<Rightarrow> nat list \<Rightarrow> (nat \<Rightarrow> error + bool) \<Rightarrow> nat list \<Rightarrow>
    face list \<Rightarrow> nat list \<Rightarrow> error + (face list \<times> nat list)" where
  "removefaces_loop fs ts crit [] newfaces newtracks = Inr (newfaces, newtracks)"
| "removefaces_loop fs ts crit (i # is) newfaces newtracks =
     (case crit i of
        Inl e \<Rightarrow> Inl e
      | Inr True \<Rightarrow> removefaces_loop fs ts crit is newfaces newtracks
      | Inr False \<Rightarrow>
          if i < length fs \<and> i < length ts
          then removefaces_loop fs ts crit is (newfaces @ [fs ! i]) (newtracks @ [ts ! i])
          else Inl IndexError)"

definition removefaces :: "mesh \<Rightarrow> (nat \<Rightarrow> error + bool) \<Rightarrow> error + mesh" where
  "removefaces m crit =
     (case removefaces_loop (faces m) (tracks m) crit [0..<length (faces m)] [] [] of
        Inl e \<Rightarrow> Inl e
      | Inr (newfaces, newtracks) \<Rightarrow> Inr (m\<lparr>faces := newfaces, tracks := newtracks\<rparr>))"

text \<open>
  \<open>lambda fi: fi in removal or faceheight(mesh,fi) <= prec\<close>; \<open>or\<close> does not evaluate its
  second operand when the first holds.
\<close>

definition removal_crit :: "mesh \<Rightarrow> nat set \<Rightarrow> real \<Rightarrow> nat \<Rightarrow> error + bool" where
  "removal_crit m removal prec fi =
     (if fi \<in> removal then Inr True
      else (case faceheight m fi of Inl e \<Rightarrow> Inl e | Inr h \<Rightarrow> Inr (h \<le> prec)))"

definition cut_line_simplify :: "(vec3 list \<Rightarrow> edge list \<Rightarrow> real \<Rightarrow> (nat \<rightharpoonup> nat)) \<Rightarrow> mesh \<Rightarrow>
    edge list list \<Rightarrow> nat set \<Rightarrow> real \<Rightarrow> error + (mesh \<times> edge list list)" where
  "cut_line_simplify simp m result removal prec =
     (let (result, merges) = simplify_groups simp (points m) prec result Map.empty;
          m = m\<lparr>faces := map (merge_face merges) (faces m)\<rparr>
      in case removefaces m (removal_crit m removal prec) of
           Inl e \<Rightarrow> Inl e
         | Inr m \<Rightarrow> Inr (m, result))"

text \<open>
  For stating the outcome: the reindexing map the phase applies, and the test a face
  index passes to be kept (on the mesh with the merged faces).
\<close>

definition phase_merges :: "(vec3 list \<Rightarrow> edge list \<Rightarrow> real \<Rightarrow> (nat \<rightharpoonup> nat)) \<Rightarrow> mesh \<Rightarrow>
    edge list list \<Rightarrow> real \<Rightarrow> (nat \<rightharpoonup> nat)" where
  "phase_merges simp m result prec = snd (simplify_groups simp (points m) prec result Map.empty)"


section \<open>Edge cut propagator\<close>

text \<open>
  The state \<open>cut_edge\<close> works on: the mesh and the connectivity map (both shared with
  the caller and updated in place), its locals \<open>seen\<close>, \<open>front\<close> and \<open>intersections\<close>, and
  the set bound to the global name \<open>removal\<close> (\<open>None\<close> when the name is unbound:
  \<open>removal\<close> is neither a parameter nor a local of \<open>cut_edge\<close>). An exception leaves the
  state as it is at the raising line: \<open>Raised e s\<close>.
\<close>

record cstate = mesh +
  conn :: "edge \<rightharpoonup> nat"
  seen :: "nat set"
  front :: "edge list"
  intersections :: "edge set"
  removal :: "nat set option"

datatype result = Done cstate | Raised error cstate

definition state_of :: "result \<Rightarrow> cstate" where
  "state_of r = (case r of Done s \<Rightarrow> s | Raised e s \<Rightarrow> s)"

text \<open>\<open>for j in range(3): front.append((f[j],f[j-1]))\<close>\<close>

definition propagate :: "face \<Rightarrow> cstate \<Rightarrow> cstate" where
  "propagate f s =
     s\<lparr>front := front s @ [(tnth f 0, tnth f (- 1)), (tnth f 1, tnth f 0), (tnth f 2, tnth f 1)]\<rparr>"

text \<open>\<open>removal.add(k)\<close> and \<open>removal.discard(k)\<close>: the read of the name comes first.\<close>

definition removal_add :: "nat \<Rightarrow> cstate \<Rightarrow> result" where
  "removal_add k s =
     (case removal s of
        None \<Rightarrow> Raised NameError s
      | Some r \<Rightarrow> Done (s\<lparr>removal := Some (insert k r)\<rparr>))"

definition removal_discard :: "nat \<Rightarrow> cstate \<Rightarrow> result" where
  "removal_discard k s =
     (case removal s of
        None \<Rightarrow> Raised NameError s
      | Some r \<Rightarrow> Done (s\<lparr>removal := Some (r - {k})\<rparr>))"

text \<open>
  The three statements \<open>registerface(mesh, conn, fi)\<close>, \<open>registerface(mesh, conn, l)\<close>,
  \<open>registerface(mesh, conn, l+1)\<close> on the state.
\<close>

definition register_in :: "nat \<Rightarrow> cstate \<Rightarrow> result" where
  "register_in k s =
     (case registerface s (conn s) k of
        Inl e \<Rightarrow> Raised e s
      | Inr c \<Rightarrow> Done (s\<lparr>conn := c\<rparr>))"

definition unregister_in :: "nat \<Rightarrow> cstate \<Rightarrow> result" where
  "unregister_in k s =
     (case unregisterface s (conn s) k of
        Inl e \<Rightarrow> Raised e s
      | Inr c \<Rightarrow> Done (s\<lparr>conn := c\<rparr>))"

definition and_then :: "result \<Rightarrow> (cstate \<Rightarrow> result) \<Rightarrow> result" where
  "and_then r k = (case r of Done s \<Rightarrow> k s | Raised e s \<Rightarrow> Raised e s)"

definition register3 :: "nat \<Rightarrow> nat \<Rightarrow> cstate \<Rightarrow> result" where
  "register3 fi l s =
     and_then (and_then (register_in fi s) (register_in l)) (register_in (l + 1))"

text \<open>
  \<open>mesh.tracks.append(mesh.tracks[fi])\<close>, twice: the read raises when \<open>tracks\<close> is
  shorter than \<open>faces\<close>.
\<close>

definition append_track :: "nat \<Rightarrow> cstate \<Rightarrow> result" where
  "append_track fi s =
     (if fi < length (tracks s) then Done (s\<lparr>tracks := tracks s @ [tracks s ! fi]\<rparr>)
      else Raised IndexError s)"

text \<open>
  Lines 376 to 378: \<open>p = None\<close>, then the two calls of \<open>intersection_axis_face\<close>, whose
  results are not assigned to anything. \<open>p\<close> is what line 379 tests.
\<close>

definition axis_point :: "sep option \<Rightarrow> sep option \<Rightarrow> vec3 \<times> vec3 \<times> vec3 \<Rightarrow> vec3 option" where
  "axis_point s1 s2 fp =
     (let p = None;
          discarded2 = (case s2 of
                          Some (o2, n2, d2) \<Rightarrow> intersection_axis_face (o2, d2) fp
                        | None \<Rightarrow> None);
          discarded1 = (case (s1, s2) of
                          (Some (o1, n1, d1), None) \<Rightarrow> intersection_axis_face (o1, d1) fp
                        | _ \<Rightarrow> None)
      in p)"

text \<open>
  A face split writes the slot \<open>fi\<close> and appends two faces:
  \<open>mesh.faces[fi] = a; mesh.faces.append(b); mesh.faces.append(c)\<close>.
\<close>

definition replace3 :: "nat \<Rightarrow> face \<Rightarrow> face \<Rightarrow> face \<Rightarrow> cstate \<Rightarrow> result" where
  "replace3 fi a b c s =
     (if fi < length (faces s) then Done (s\<lparr>faces := (faces s)[fi := a] @ [b, c]\<rparr>)
      else Raised IndexError s)"

text \<open>
  Lines 382 to 393, the three-way split around the point \<open>p\<close> of the separator axis:
  the face slot \<open>fi\<close> is replaced, two faces are appended, the three are registered and
  the popped edge is pushed again.
\<close>

definition split_axis :: "real \<Rightarrow> vec3 \<Rightarrow> nat \<Rightarrow> face \<Rightarrow> edge \<Rightarrow> cstate \<Rightarrow> result" where
  "split_axis prec p fi f frontedge s =
     (let (pts, pi) = usepointat (points s) p prec;
          s = s\<lparr>points := pts\<rparr>;
          l = length (faces s)
      in and_then (and_then (and_then (and_then (and_then
           (unregister_in fi s)
           (replace3 fi (tnth f 0, tnth f 1, pi) (tnth f 1, tnth f 2, pi) (tnth f 2, tnth f 0, pi)))
           (append_track fi))
           (append_track fi))
           (register3 fi l))
           (\<lambda>s. Done (s\<lparr>front := front s @ [frontedge]\<rparr>)))"

text \<open>
  Lines 439 to 461, the split of face \<open>fi\<close> by the cut plane between the intersection
  points \<open>cj = cut[j]\<close> and \<open>cp = cut[j-1]\<close>, up to the \<open>break\<close>. \<open>mark_cut\<close> is its end,
  from \<open>seen.update((fi, l, l+1))\<close> on: the side of corner \<open>f[j]\<close> decides which of the
  three faces go to \<open>removal\<close> and how the intersection segment is oriented.
\<close>

definition mark_cut :: "vec3 \<times> vec3 \<Rightarrow> nat \<Rightarrow> nat \<Rightarrow> int \<Rightarrow> nat \<Rightarrow> face \<Rightarrow> nat \<Rightarrow> cstate \<Rightarrow> result" where
  "mark_cut cutplane p1 p2 j fi f l s0 =
     (let s = s0\<lparr>seen := seen s0 \<union> {fi, l, l + 1}\<rparr>
      in if tnth f j < length (points s)
         then
           (if dot (vsub (points s ! tnth f j) (fst cutplane)) (snd cutplane) < 0
            then and_then (and_then (removal_add fi s) (removal_add l))
                   (\<lambda>s. Done (s\<lparr>intersections := insert (p2, p1) (intersections s)\<rparr>))
            else and_then (removal_add (l + 1) s)
                   (\<lambda>s. Done (s\<lparr>intersections := insert (p1, p2) (intersections s)\<rparr>)))
         else Raised IndexError s)"

definition split_cut :: "real \<Rightarrow> vec3 \<times> vec3 \<Rightarrow> vec3 \<Rightarrow> vec3 \<Rightarrow> int \<Rightarrow> nat \<Rightarrow> face \<Rightarrow> cstate \<Rightarrow> result" where
  "split_cut prec cutplane cj cp j fi f s0 =
     and_then (removal_discard fi s0) (\<lambda>s.
       (let (pts, p1) = usepointat (points s) cj prec;
            (pts, p2) = usepointat pts cp prec;
            s = s\<lparr>points := pts\<rparr>;
            l = length (faces s)
        in and_then (and_then (and_then (and_then (and_then
             (unregister_in fi s)
             (replace3 fi (p1, tnth f (j - 2), tnth f (j - 1)) (p1, tnth f (j - 1), p2)
                          (p1, p2, tnth f (j - 0))))
             (append_track fi))
             (append_track fi))
             (register3 fi l))
             (mark_cut cutplane p1 p2 j fi f l)))"

text \<open>
  The test of lines 435 and 436: the intersection segment lies outside the span a
  separator bounds.
\<close>

definition outside_span :: "real \<Rightarrow> sep option \<Rightarrow> sep option \<Rightarrow> vec3 \<Rightarrow> vec3 \<Rightarrow> bool" where
  "outside_span prec s1 s2 cp cj =
     ((case s1 of
         Some (o1, n1, d1) \<Rightarrow>
           dot (vsub cp o1) (vneg n1) < prec \<and> dot (vsub cj o1) (vneg n1) < prec
       | None \<Rightarrow> False)
      \<or> (case s2 of
            Some (o2, n2, d2) \<Rightarrow> dot (vsub cp o2) n2 < prec \<and> dot (vsub cj o2) n2 < prec
          | None \<Rightarrow> False))"

text \<open>
  The loop \<open>for j in range(3)\<close> of lines 431 to 461 over the remaining values of \<open>j\<close>;
  the result pairs the flag \<open>cutted\<close> with the state. An entry of \<open>cut\<close> is \<open>None\<close> or a
  point; \<open>if cut[j] and cut[j-1]\<close> is read as "both are points" (a vector is taken to be
  truthy, as a sequence of length three is).
\<close>

fun cut_loop :: "real \<Rightarrow> vec3 \<times> vec3 \<Rightarrow> sep option \<Rightarrow> sep option \<Rightarrow>
    vec3 option \<times> vec3 option \<times> vec3 option \<Rightarrow> nat \<Rightarrow> face \<Rightarrow> int list \<Rightarrow> bool \<Rightarrow> cstate \<Rightarrow>
    bool \<times> result" where
  "cut_loop prec cutplane s1 s2 cuts fi f [] cutted s = (cutted, Done s)"
| "cut_loop prec cutplane s1 s2 cuts fi f (j # js) cutted s =
     (case (tnth cuts j, tnth cuts (j - 1)) of
        (Some cj, Some cp) \<Rightarrow>
          if outside_span prec s1 s2 cp cj
          then cut_loop prec cutplane s1 s2 cuts fi f js True s
          else (True, split_cut prec cutplane cj cp j fi f s)
      | _ \<Rightarrow> cut_loop prec cutplane s1 s2 cuts fi f js cutted s)"

text \<open>
  Lines 423 and 424: an intersection within \<open>prec\<close> of the previous one is dropped, the
  list being updated in place as the loop goes.
\<close>

definition clean_cuts :: "real \<Rightarrow> vec3 option \<times> vec3 option \<times> vec3 option \<Rightarrow>
    vec3 option \<times> vec3 option \<times> vec3 option" where
  "clean_cuts prec cuts =
     foldl (\<lambda>c j. case (tnth c (j - 1), tnth c j) of
                     (Some a, Some b) \<Rightarrow> if distance a b < prec then tupd c j None else c
                   | _ \<Rightarrow> c)
       cuts [0, 1, 2]"

text \<open>
  Lines 429 to 465: the cutting loop, then the propagation into the neighbours when the
  face was cut or has a corner in the area (\<open>corner_in\<close>).
\<close>

definition cut_and_propagate :: "real \<Rightarrow> vec3 \<times> vec3 \<Rightarrow> sep option \<Rightarrow> sep option \<Rightarrow>
    vec3 option \<times> vec3 option \<times> vec3 option \<Rightarrow> nat \<Rightarrow> face \<Rightarrow> bool \<Rightarrow> cstate \<Rightarrow> result" where
  "cut_and_propagate prec cutplane s1 s2 cuts fi f corner_in s =
     (case cut_loop prec cutplane s1 s2 cuts fi f [0, 1, 2] False s of
        (cutted, r) \<Rightarrow>
          and_then r (\<lambda>s. if cutted \<or> corner_in then Done (propagate f s) else Done s))"

text \<open>
  Lines 395 to 465, the branch that classifies and cuts face \<open>fi\<close> (with corners \<open>f\<close> and
  points \<open>fp\<close>).
\<close>

definition process_face :: "real \<Rightarrow> vec3 \<times> vec3 \<Rightarrow> sep option \<Rightarrow> sep option \<Rightarrow> real \<Rightarrow>
    nat \<Rightarrow> face \<Rightarrow> vec3 \<times> vec3 \<times> vec3 \<Rightarrow> cstate \<Rightarrow> result" where
  "process_face numprec cutplane s1 s2 prec fi f fp s0 =
     (let s = s0\<lparr>seen := insert fi (seen s0)\<rparr>;
          side = (\<lambda>p. dot (vsub p (fst cutplane)) (snd cutplane) > - prec);
          goodside = (side (tnth fp 0), side (tnth fp 1), side (tnth fp 2));
          inx = (\<lambda>p. (case s1 of Some (o1, n1, d1) \<Rightarrow> dot (vsub p o1) (vneg n1) \<ge> - prec
                                  | None \<Rightarrow> True)
                     \<and> (case s2 of Some (o2, n2, d2) \<Rightarrow> dot (vsub p o2) n2 \<ge> - prec
                                    | None \<Rightarrow> True));
          goodx = (inx (tnth fp 0), inx (tnth fp 1), inx (tnth fp 2))
      in if \<not> (tnth goodside 0 \<or> tnth goodside 1 \<or> tnth goodside 2) then Done s
         else
           (let cuts = (intersection_edge_plane numprec cutplane (tnth fp 0, tnth fp 1) prec,
                        intersection_edge_plane numprec cutplane (tnth fp 1, tnth fp 2) prec,
                        intersection_edge_plane numprec cutplane (tnth fp 2, tnth fp 0) prec);
                cuts = clean_cuts prec cuts
            in and_then
                 (if tnth goodside 0 \<and> tnth goodside 1 \<and> tnth goodside 2
                     \<and> (tnth goodx 0 \<or> tnth goodx 1 \<or> tnth goodx 2)
                  then removal_add fi s else Done s)
                 (cut_and_propagate prec cutplane s1 s2 cuts fi f
                    (tnth goodside 0 \<and> tnth goodx 0 \<or> tnth goodside 1 \<and> tnth goodx 1
                     \<or> tnth goodside 2 \<and> tnth goodx 2))))"

text \<open>
  One pass of the body of \<open>while front:\<close> (lines 360 to 465), for a non-empty front.
  \<open>front.pop()\<close> takes the last element. \<open>if p and ...\<close> fails when \<open>p\<close> is \<open>None\<close>.
\<close>

definition cut_edge_step :: "real \<Rightarrow> vec3 \<times> vec3 \<Rightarrow> sep option \<Rightarrow> sep option \<Rightarrow> real \<Rightarrow> cstate \<Rightarrow> result" where
  "cut_edge_step numprec cutplane s1 s2 prec s0 =
     (let frontedge = last (front s0);
          s = s0\<lparr>front := butlast (front s0)\<rparr>
      in case conn s frontedge of
           None \<Rightarrow> Done s
         | Some fi \<Rightarrow>
             if fi \<in> seen s then Done s
             else if \<not> fi < length (faces s) then Raised IndexError s
             else
               (let f = faces s ! fi
                in case faceheight s fi of
                     Inl e \<Rightarrow> Raised e s
                   | Inr h \<Rightarrow>
                       if h \<le> prec then Done (propagate f (s\<lparr>seen := insert fi (seen s)\<rparr>))
                       else
                         (case facepoints s fi of
                            Inl e \<Rightarrow> Raised e s
                          | Inr fp \<Rightarrow>
                              (case axis_point s1 s2 fp of
                                 Some p \<Rightarrow>
                                   if distance p (tnth fp 0) > prec \<and> distance p (tnth fp 1) > prec
                                      \<and> distance p (tnth fp 2) > prec
                                   then split_axis prec p fi f frontedge s
                                   else process_face numprec cutplane s1 s2 prec fi f fp s
                               | None \<Rightarrow> process_face numprec cutplane s1 s2 prec fi f fp s))))"

text \<open>
  The loop \<open>while front:\<close>. It need not terminate, so \<open>cut_edge_run n\<close> is the state after
  at most \<open>n\<close> passes of the body (fewer when the front empties or a pass raises), and
  \<open>cut_edge_loop\<close> runs on fuel: \<open>None\<close> when the fuel does not suffice.
\<close>

fun cut_edge_run :: "nat \<Rightarrow> real \<Rightarrow> vec3 \<times> vec3 \<Rightarrow> sep option \<Rightarrow> sep option \<Rightarrow> real \<Rightarrow> cstate \<Rightarrow> result" where
  "cut_edge_run 0 numprec cutplane s1 s2 prec s = Done s"
| "cut_edge_run (Suc n) numprec cutplane s1 s2 prec s =
     (if front s = [] then Done s
      else (case cut_edge_step numprec cutplane s1 s2 prec s of
              Raised e s' \<Rightarrow> Raised e s'
            | Done s' \<Rightarrow> cut_edge_run n numprec cutplane s1 s2 prec s'))"

fun cut_edge_loop :: "nat \<Rightarrow> real \<Rightarrow> vec3 \<times> vec3 \<Rightarrow> sep option \<Rightarrow> sep option \<Rightarrow> real \<Rightarrow> cstate \<Rightarrow> result option" where
  "cut_edge_loop fuel numprec cutplane s1 s2 prec s =
     (if front s = [] then Some (Done s)
      else (case fuel of
              0 \<Rightarrow> None
            | Suc n \<Rightarrow>
                (case cut_edge_step numprec cutplane s1 s2 prec s of
                   Raised e s' \<Rightarrow> Some (Raised e s')
                 | Done s' \<Rightarrow> cut_edge_loop n numprec cutplane s1 s2 prec s')))"

text \<open>
  Lines 354 to 358, before the loop. \<open>edge\<close> is a pair of point indices; the front is
  \<open>[(edge[i],edge[i-1]), (edge[i-1],edge[i])]\<close>, where \<open>i\<close> is not bound in \<open>cut_edge\<close>: the
  read of the global \<open>i\<close> raises \<open>NameError\<close> when it is unbound, and an index outside
  \<open>-2 .. 1\<close> raises \<open>IndexError\<close> on a pair.
\<close>

definition pair_nth :: "'a \<times> 'a \<Rightarrow> int \<Rightarrow> error + 'a" where
  "pair_nth e k =
     (if k = 0 \<or> k = - 2 then Inr (fst e)
      else if k = 1 \<or> k = - 1 then Inr (snd e)
      else Inl IndexError)"

definition cut_edge_init :: "globals \<Rightarrow> mesh \<Rightarrow> edge \<Rightarrow> vec3 \<Rightarrow> (edge \<rightharpoonup> nat) \<Rightarrow>
    error + ((vec3 \<times> vec3) \<times> cstate)" where
  "cut_edge_init g m edge offset cn =
     (if \<not> fst edge < length (points m) then Inl IndexError
      else
        (let cutplane = (vadd (points m ! fst edge) offset, vneg (normalize offset))
         in case g_i g of
              None \<Rightarrow> Inl NameError
            | Some i \<Rightarrow>
                (case (pair_nth edge i, pair_nth edge (i - 1)) of
                   (Inr a, Inr b) \<Rightarrow>
                     Inr (cutplane,
                          mesh.extend m
                            \<lparr>conn = cn, seen = {}, front = [(a, b), (b, a)],
                             intersections = {}, removal = g_removal g\<rparr>)
                 | _ \<Rightarrow> Inl IndexError)))"

text \<open>
  \<open>cut_edge(mesh, edge, offset, s1, s2, conn, prec)\<close>: the seeding, then the loop; the
  value returned is the set \<open>intersections\<close> of the final state. An exception before the
  loop leaves the mesh and the map as they were.
\<close>

definition cut_edge :: "nat \<Rightarrow> globals \<Rightarrow> real \<Rightarrow> mesh \<Rightarrow> edge \<Rightarrow> vec3 \<Rightarrow> sep option \<Rightarrow> sep option \<Rightarrow>
    (edge \<rightharpoonup> nat) \<Rightarrow> real \<Rightarrow> (error + result) option" where
  "cut_edge fuel g numprec m edge offset s1 s2 cn prec =
     (case cut_edge_init g m edge offset cn of
        Inl e \<Rightarrow> Some (Inl e)
      | Inr (cutplane, s) \<Rightarrow>
          map_option Inr (cut_edge_loop fuel numprec cutplane s1 s2 prec s))"

section \<open>A mesh with a duplicated point, as a concrete input of the simplifier\<close>


section \<open>Invariants of the propagation, for the proofs\<close>

text \<open>
  \<open>frame fi s s'\<close>: from \<open>s\<close> to \<open>s'\<close> the set \<open>seen\<close> has only grown, the lists \<open>faces\<close> and
  \<open>tracks\<close> have only been extended, and no face slot of \<open>s\<close> other than \<open>fi\<close> has been
  written. \<open>settled s s'\<close>: moreover a slot that was written was not in \<open>seen\<close> before and
  is in \<open>seen\<close> afterwards.
\<close>

definition frame :: "nat \<Rightarrow> cstate \<Rightarrow> cstate \<Rightarrow> bool" where
  "frame fi s s' \<longleftrightarrow>
     seen s \<subseteq> seen s' \<and> length (faces s) \<le> length (faces s') \<and>
     (\<forall>k<length (faces s). k \<noteq> fi \<longrightarrow> faces s' ! k = faces s ! k) \<and>
     length (tracks s) \<le> length (tracks s') \<and>
     (\<forall>k<length (tracks s). tracks s' ! k = tracks s ! k)"

definition settled :: "cstate \<Rightarrow> cstate \<Rightarrow> bool" where
  "settled s s' \<longleftrightarrow>
     seen s \<subseteq> seen s' \<and> length (faces s) \<le> length (faces s') \<and>
     (\<forall>k<length (faces s). faces s' ! k \<noteq> faces s ! k \<longrightarrow> k \<notin> seen s \<and> k \<in> seen s') \<and>
     length (tracks s) \<le> length (tracks s') \<and>
     (\<forall>k<length (tracks s). tracks s' ! k = tracks s ! k)"

section \<open>A triangle cut by a plane, as a concrete state\<close>

text \<open>
  One face \<open>(0, 1, 2)\<close> over the points \<open>(0,0,0)\<close>, \<open>(2,0,0)\<close>, \<open>(0,2,0)\<close>, with the edge
  \<open>(2, 0)\<close> on the front and \<open>removal\<close> bound to an empty set. \<open>tri_cut\<close> is the state one
  pass of the loop leaves for the cut plane through \<open>(1,0,0)\<close> with normal \<open>(-1,0,0)\<close>: the
  face is split along the segment from \<open>(1,0,0)\<close> to \<open>(1,1,0)\<close>.
\<close>

definition tri :: cstate where
  "tri = \<lparr>points = [(0, 0, 0), (2, 0, 0), (0, 2, 0)], faces = [(0, 1, 2)], tracks = [0],
          groups = [], conn = [(0, 1) \<mapsto> 0, (1, 2) \<mapsto> 0, (2, 0) \<mapsto> 0], seen = {},
          front = [(2, 0)], intersections = {}, removal = Some {}\<rparr>"

definition tri_cut :: cstate where
  "tri_cut = \<lparr>points = [(0, 0, 0), (2, 0, 0), (0, 2, 0), (1, 1, 0), (1, 0, 0)],
          faces = [(3, 2, 0), (3, 0, 4), (3, 4, 1)], tracks = [0, 0, 0], groups = [],
          conn = [(3, 2) \<mapsto> 0, (2, 0) \<mapsto> 0, (0, 3) \<mapsto> 0, (3, 0) \<mapsto> 1, (0, 4) \<mapsto> 1,
                  (4, 3) \<mapsto> 1, (3, 4) \<mapsto> 2, (4, 1) \<mapsto> 2, (1, 3) \<mapsto> 2],
          seen = {0, 1, 2}, front = [(0, 2), (1, 0), (2, 1)],
          intersections = {(4, 3)}, removal = Some {0, 1}\<rparr>"

section \<open>Properties of the connectivity index\<close>

lemma registerface_Inr:
  "fi < length (faces m) \<Longrightarrow> faces m ! fi = (a, b, c) \<Longrightarrow>
   registerface m cn fi = Inr (cn((a, b) \<mapsto> fi, (b, c) \<mapsto> fi, (c, a) \<mapsto> fi))"
  by (simp add: registerface_def face_edges_def)

lemma unregisterface_Inr:
  "fi < length (faces m) \<Longrightarrow> faces m ! fi = (a, b, c) \<Longrightarrow>
   unregisterface m cn fi = Inr (cn((a, b) := None, (b, c) := None, (c, a) := None))"
  by (auto simp: unregisterface_def face_edges_def fun_eq_iff domIff)

text \<open>
  Claim C10. For a face index \<open>fi\<close> of the mesh, \<open>unregisterface\<close> followed by
  \<open>registerface\<close> raises nothing and leaves the map sending each of the three directed
  edges of face \<open>fi\<close> to \<open>fi\<close>; when the map already sent these three edges to \<open>fi\<close>, the
  two calls give back the same mapping (equality of the key/value mapping, as Python
  compares dicts; the insertion order of a dict is not part of the model).
\<close>

theorem unregister_then_register:
  assumes "fi < length (faces m)"
  shows "\<exists>c1 c2. unregisterface m cn fi = Inr c1 \<and> registerface m c1 fi = Inr c2 \<and>
           (\<forall>e \<in> set (face_edges (faces m ! fi)). c2 e = Some fi) \<and>
           ((\<forall>e \<in> set (face_edges (faces m ! fi)). cn e = Some fi) \<longrightarrow> c2 = cn)"
proof -
  obtain a b c where f: "faces m ! fi = (a, b, c)"
    by (cases "faces m ! fi") auto
  let ?c1 = "cn((a, b) := None, (b, c) := None, (c, a) := None)"
  let ?c2 = "?c1((a, b) \<mapsto> fi, (b, c) \<mapsto> fi, (c, a) \<mapsto> fi)"
  have u: "unregisterface m cn fi = Inr ?c1"
    using assms f by (rule unregisterface_Inr)
  have r: "registerface m ?c1 fi = Inr ?c2"
    using assms f by (rule registerface_Inr)
  have all: "\<forall>e \<in> set (face_edges (faces m ! fi)). ?c2 e = Some fi"
    by (simp add: f face_edges_def)
  have same: "(\<forall>e \<in> set (face_edges (faces m ! fi)). cn e = Some fi) \<longrightarrow> ?c2 = cn"
    by (auto simp: f face_edges_def fun_eq_iff)
  from u r all same show ?thesis by blast
qed

theorem unregister_then_register_witness:
  "\<exists>c1 c2. unregisterface \<lparr>points = [], faces = [(0, 1, 2)], tracks = [0], groups = []\<rparr>
              [(0, 1) \<mapsto> 0, (1, 2) \<mapsto> 0, (2, 0) \<mapsto> 0, (1, 0) \<mapsto> 7] 0 = Inr c1 \<and>
           registerface \<lparr>points = [], faces = [(0, 1, 2)], tracks = [0], groups = []\<rparr> c1 0 = Inr c2 \<and>
           c2 (0, 1) = Some 0 \<and> c2 (1, 2) = Some 0 \<and> c2 (2, 0) = Some 0 \<and>
           c2 = [(0, 1) \<mapsto> 0, (1, 2) \<mapsto> 0, (2, 0) \<mapsto> 0, (1, 0) \<mapsto> 7]"
  using unregister_then_register
    [of 0 "\<lparr>points = [], faces = [(0, 1, 2)], tracks = [0], groups = []\<rparr>"
        "[(0, 1) \<mapsto> 0, (1, 2) \<mapsto> 0, (2, 0) \<mapsto> 0, (1, 0) \<mapsto> 7]"]
  by (simp add: face_edges_def)

section \<open>Properties of the separator planes\<close>

lemma last_defined_snoc: "last_defined (xs @ [x]) = (case x of Some v \<Rightarrow> Some v | None \<Rightarrow> last_defined xs)"
  by (induction xs) (auto split: option.splits)

lemma forward_value_step: "0 < j \<Longrightarrow> j < length segs \<Longrightarrow> segs ! j = None \<Longrightarrow> forward_value segs j = forward_value segs (j - 1)"
  by (cases j) (auto simp: forward_value_def take_Suc_conv_app_nth last_defined_snoc split: option.splits)

lemma fwd_inv:
  "1 \<le> j \<Longrightarrow> j \<le> length segs \<Longrightarrow>
   length (foldl (\<lambda>s i. if s ! i = None then s[i := s ! (i - 1)] else s) segs [1..<j]) = length segs \<and>
   (\<forall>m<length segs. foldl (\<lambda>s i. if s ! i = None then s[i := s ! (i - 1)] else s) segs [1..<j] ! m
        = (if m < j then forward_value segs m else segs ! m))"
proof (induction j)
  case 0 then show ?case by simp
next
  case (Suc j)
  show ?case
  proof (cases "j = 0")
    case True
    then show ?thesis by (auto simp: forward_value_def split: option.splits)
  next
    case False
    with Suc have IH: "length (foldl (\<lambda>s i. if s ! i = None then s[i := s ! (i - 1)] else s) segs [1..<j]) = length segs"
       "\<forall>m<length segs. foldl (\<lambda>s i. if s ! i = None then s[i := s ! (i - 1)] else s) segs [1..<j] ! m
        = (if m < j then forward_value segs m else segs ! m)" by auto
    have up: "[1..<Suc j] = [1..<j] @ [j]" using False by simp
    have jl: "j < length segs" using Suc.prems by simp
    define s where "s = foldl (\<lambda>s i. if s ! i = None then s[i := s ! (i - 1)] else s) segs [1..<j]"
    have sj: "s ! j = segs ! j" and sp: "s ! (j - 1) = forward_value segs (j - 1)" and ls: "length s = length segs"
      using IH jl False by (auto simp: s_def)
    have sm: "\<And>m. m < length segs \<Longrightarrow> s ! m = (if m < j then forward_value segs m else segs ! m)"
      using IH by (auto simp: s_def)
    have fv_some: "segs ! j \<noteq> None \<Longrightarrow> forward_value segs j = segs ! j"
      by (auto simp: forward_value_def)
    show ?thesis
      unfolding up foldl_append s_def[symmetric]
      using sj sp ls jl False fv_some forward_value_step[of j segs]
      by (auto simp: nth_list_update less_Suc_eq sm)
  qed
qed

lemma fill_forward_nth:
  "m < length segs \<Longrightarrow> fill_forward segs ! m = forward_value segs m"
  using fwd_inv[of "length segs" segs] by (cases segs) (auto simp: fill_forward_def)

lemma fill_forward_length: "length (fill_forward segs) = length segs"
  using fwd_inv[of "length segs" segs] by (cases segs) (auto simp: fill_forward_def)



lemma backward_value_step: "Suc j < length t \<Longrightarrow> t ! j = None \<Longrightarrow> backward_value t j = backward_value t (Suc j)"
  by (simp add: backward_value_def Cons_nth_drop_Suc[symmetric])

lemma bwd_inv:
  "j \<le> length t - 1 \<Longrightarrow>
   length (foldl (\<lambda>s i. if s ! i = None then s[i := s ! (i + 1)] else s) t (rev [j..<length t - 1])) = length t \<and>
   (\<forall>m<length t. foldl (\<lambda>s i. if s ! i = None then s[i := s ! (i + 1)] else s) t (rev [j..<length t - 1]) ! m
        = (if j \<le> m then backward_value t m else t ! m))"
proof (induction "length t - 1 - j" arbitrary: j)
  case 0
  then have "j = length t - 1" by simp
  then show ?case by (auto simp: backward_value_def split: option.splits)
next
  case (Suc d)
  then have jl: "Suc j < length t" and d: "d = length t - 1 - Suc j" and le: "Suc j \<le> length t - 1"
    by auto
  define s where "s = foldl (\<lambda>s i. if s ! i = None then s[i := s ! (i + 1)] else s) t (rev [Suc j..<length t - 1])"
  from Suc.hyps(1)[OF d le]
  have ls: "length s = length t"
    and sm: "\<And>m. m < length t \<Longrightarrow> s ! m = (if Suc j \<le> m then backward_value t m else t ! m)"
    by (auto simp: s_def)
  have up: "rev [j..<length t - 1] = rev [Suc j..<length t - 1] @ [j]"
    using jl by (simp add: upt_conv_Cons)
  have bv_some: "t ! j \<noteq> None \<Longrightarrow> backward_value t j = t ! j"
    by (auto simp: backward_value_def)
  have sj: "s ! j = t ! j" and sS: "s ! Suc j = backward_value t (Suc j)"
    using sm[of j] sm[of "Suc j"] jl by auto
  define s' where "s' = (if s ! j = None then s[j := s ! (j + 1)] else s)"
  have ls': "length s' = length t" by (simp add: s'_def ls)
  have s'j: "s' ! j = backward_value t j"
    using sj sS bv_some backward_value_step[of j t] jl ls by (auto simp: s'_def)
  have s'm: "\<And>m. m < length t \<Longrightarrow> m \<noteq> j \<Longrightarrow> s' ! m = s ! m"
    by (auto simp: s'_def)
  have "\<forall>m<length t. s' ! m = (if j \<le> m then backward_value t m else t ! m)"
  proof (intro allI impI)
    fix m assume m: "m < length t"
    consider "m = j" | "m < j" | "Suc j \<le> m" by linarith
    then show "s' ! m = (if j \<le> m then backward_value t m else t ! m)"
    proof cases
      case 1 then show ?thesis using s'j by simp
    next
      case 2 then show ?thesis using s'm[OF m] sm[OF m] by simp
    next
      case 3 then show ?thesis using s'm[OF m] sm[OF m] by simp
    qed
  qed
  moreover have "foldl (\<lambda>s i. if s ! i = None then s[i := s ! (i + 1)] else s) t (rev [j..<length t - 1]) = s'"
    by (simp only: up foldl_append s_def[symmetric] s'_def foldl.simps)
  ultimately show ?case using ls' by (simp only:) 
qed

lemma fill_backward_nth: "m < length t \<Longrightarrow> fill_backward t ! m = backward_value t m"
  using bwd_inv[of 0 t] by (simp add: fill_backward_def)

lemma fill_backward_length: "length (fill_backward t) = length t"
  using bwd_inv[of 0 t] by (simp add: fill_backward_def)

lemma last_defined_None: "last_defined xs = None \<longleftrightarrow> (\<forall>x\<in>set xs. x = None)"
  by (induction xs) (auto split: option.splits)

lemma first_defined_cong:
  "length xs = length ys \<Longrightarrow> (\<forall>m<length xs. (\<forall>i<m. xs ! i = None) \<longrightarrow> ys ! m = xs ! m) \<Longrightarrow>
   first_defined xs = first_defined ys"
proof (induction xs ys rule: list_induct2)
  case Nil
  then show ?case by simp
next
  case (Cons x xs y ys)
  from Cons.prems have xy: "y = x" by auto
  show ?case
  proof (cases x)
    case None
    have "\<forall>m<length xs. (\<forall>i<m. xs ! i = None) \<longrightarrow> ys ! m = xs ! m"
    proof (intro allI impI)
      fix m assume m: "m < length xs" and a: "\<forall>i<m. xs ! i = None"
      have "\<forall>i<Suc m. (x # xs) ! i = None"
        using a None by (auto simp: less_Suc_eq_0_disj)
      moreover have "Suc m < length (x # xs)" using m by simp
      ultimately have "(y # ys) ! Suc m = (x # xs) ! Suc m"
        using Cons.prems[THEN spec, of "Suc m"] by (simp only: simp_thms)
      then show "ys ! m = xs ! m" by simp
    qed
    with Cons.IH None xy show ?thesis by simp
  next
    case (Some v)
    with xy show ?thesis by simp
  qed
qed

lemma fill_both_nth:
  assumes "k < length segs"
  shows "fill_backward (fill_forward segs) ! k =
     (case segs ! k of Some v \<Rightarrow> Some v
      | None \<Rightarrow> (case last_defined (take k segs) of Some v \<Rightarrow> Some v
                 | None \<Rightarrow> first_defined (drop (Suc k) segs)))"
proof -
  let ?t = "fill_forward segs"
  have lt: "length ?t = length segs" by (rule fill_forward_length)
  have b: "fill_backward ?t ! k = backward_value ?t k"
    using assms lt by (simp add: fill_backward_nth)
  have tk: "?t ! k = forward_value segs k" using assms by (rule fill_forward_nth)
  show ?thesis
  proof (cases "forward_value segs k")
    case (Some v)
    then show ?thesis using b tk by (auto simp: backward_value_def forward_value_def split: option.splits)
  next
    case None
    then have sk: "segs ! k = None" and ld: "last_defined (take k segs) = None"
      by (auto simp: forward_value_def split: option.splits)
    have allN: "\<forall>i\<le>k. segs ! i = None"
    proof (intro allI impI)
      fix i assume "i \<le> k"
      show "segs ! i = None"
      proof (cases "i = k")
        case True then show ?thesis using sk by simp
      next
        case False
        with \<open>i \<le> k\<close> have "i < k" by simp
        then have "segs ! i \<in> set (take k segs)"
          using assms by (auto simp: in_set_conv_nth intro!: exI[of _ i])
        with ld show ?thesis by (simp add: last_defined_None)
      qed
    qed
    have "first_defined (drop (Suc k) segs) = first_defined (drop (Suc k) ?t)"
    proof (rule first_defined_cong)
      show "length (drop (Suc k) segs) = length (drop (Suc k) ?t)" by (simp add: lt)
      show "\<forall>m<length (drop (Suc k) segs). (\<forall>i<m. drop (Suc k) segs ! i = None) \<longrightarrow>
              drop (Suc k) ?t ! m = drop (Suc k) segs ! m"
      proof (intro allI impI)
        fix m assume m: "m < length (drop (Suc k) segs)"
          and a: "\<forall>i<m. drop (Suc k) segs ! i = None"
        have idx: "Suc k + m < length segs" using m by simp
        have "\<forall>x\<in>set (take (Suc k + m) segs). x = None"
        proof
          fix x assume "x \<in> set (take (Suc k + m) segs)"
          then obtain i where i: "i < Suc k + m" and x: "x = segs ! i"
            using idx by (auto simp: in_set_conv_nth)
          show "x = None"
          proof (cases "i \<le> k")
            case True then show ?thesis using allN x by simp
          next
            case False
            then have im: "i - Suc k < m" and ie: "Suc k + (i - Suc k) = i" using i by auto
            from a im have "drop (Suc k) segs ! (i - Suc k) = None" by blast
            moreover have "drop (Suc k) segs ! (i - Suc k) = segs ! (Suc k + (i - Suc k))"
              using idx im by (intro nth_drop) simp
            ultimately show ?thesis using x ie by simp
          qed
        qed
        then have "last_defined (take (Suc k + m) segs) = None"
          by (simp add: last_defined_None)
        then have "forward_value segs (Suc k + m) = segs ! (Suc k + m)"
          by (auto simp: forward_value_def split: option.splits)
        then show "drop (Suc k) ?t ! m = drop (Suc k) segs ! m"
          using idx lt by (simp add: fill_forward_nth)
      qed
    qed
    then show ?thesis using b tk None sk ld by (simp add: backward_value_def)
  qed
qed

lemma collect_nth:
  "collect f is = Inr xs \<Longrightarrow> length xs = length is \<and> (\<forall>k<length is. f (is ! k) = Inr (xs ! k))"
proof (induction "is" arbitrary: xs)
  case Nil
  then show ?case by simp
next
  case (Cons i "is")
  then show ?case
    by (auto split: sum.splits simp: nth_Cons split: nat.splits)
qed

lemma separators_raw_nth:
  assumes "separators_raw prec pts line offsets = Inr raw" and "k < length raw"
  shows "separator_at prec pts line offsets (Suc k) = Inr (raw ! k)" and "1 \<le> length line - 1"
proof -
  let ?stop = "if hd line \<noteq> last line then length line - 1 else length line - 1 + 1"
  from assms(1) have c: "collect (separator_at prec pts line offsets) [1..<?stop] = Inr raw"
    by (simp add: separators_raw_def Let_def split: if_splits del: upt_Suc)
  from collect_nth[OF c] assms(2)
  have len: "length raw = length [1..<?stop]"
    and nth: "separator_at prec pts line offsets ([1..<?stop] ! k) = Inr (raw ! k)"
    by auto
  from len assms(2) have "k < ?stop - 1" by simp
  then have "[1..<?stop] ! k = Suc k" by simp
  with nth show "separator_at prec pts line offsets (Suc k) = Inr (raw ! k)" by simp
  then show "1 \<le> length line - 1"
    by (auto simp: separator_at_def Let_def split: if_splits)
qed

lemma separator_at_None_iff:
  "separator_at prec pts line offsets i = Inr r \<Longrightarrow>
   (r = None) = (\<not> prec < vlength (cross (offsets ! ((i - 1) mod (length line - 1)))
                                        (offsets ! (i mod (length line - 1)))))"
  by (cases r) (simp_all add: separator_at_def Let_def split: if_splits)

lemma raw_None_iff:
  assumes "separators_raw prec pts line offsets = Inr raw" and "k < length raw"
  shows "raw ! k = None \<longleftrightarrow> degenerate prec line offsets k"
proof -
  have "separator_at prec pts line offsets (Suc k) = Inr (raw ! k)"
    using assms by (rule separators_raw_nth)
  from separator_at_None_iff[OF this] show ?thesis
    by (simp add: degenerate_def Let_def not_less)
qed

text \<open>
  Claim C2, as amended. Where \<open>separators\<close> raises nothing: the entry of a vertex is left
  undefined by the first loop exactly when the cross product of its two neighbouring
  offsets has length at most the precision; after the two completion loops an undefined
  entry holds the plane of the nearest defined entry before it in the list or, when no
  entry before it is defined, of the nearest defined entry after it; and where entry
  \<open>k\<close> is the only undefined one of at least two, it ends with the plane of the entry
  just before it (of the entry just after it for \<open>k = 0\<close>).
\<close>

theorem separators_completion:
  assumes "separators_raw prec pts line offsets = Inr raw" and "k < length raw"
  shows "\<exists>segs. separators prec pts line offsets = Inr segs \<and> length segs = length raw \<and>
     (raw ! k = None \<longleftrightarrow> degenerate prec line offsets k) \<and>
     segs ! k = (case raw ! k of Some v \<Rightarrow> Some v
                 | None \<Rightarrow> (case last_defined (take k raw) of Some v \<Rightarrow> Some v
                            | None \<Rightarrow> first_defined (drop (Suc k) raw))) \<and>
     (raw ! k = None \<and> (\<forall>j<length raw. j \<noteq> k \<longrightarrow> raw ! j \<noteq> None) \<and> 2 \<le> length raw
        \<longrightarrow> segs ! k = raw ! (if k = 0 then 1 else k - 1))"
proof -
  let ?segs = "fill_backward (fill_forward raw)"
  have s: "separators prec pts line offsets = Inr ?segs"
    using assms(1) by (simp add: separators_def)
  have l: "length ?segs = length raw"
    by (simp add: fill_backward_length fill_forward_length)
  have d: "raw ! k = None \<longleftrightarrow> degenerate prec line offsets k"
    using assms by (rule raw_None_iff)
  have n: "?segs ! k = (case raw ! k of Some v \<Rightarrow> Some v
                 | None \<Rightarrow> (case last_defined (take k raw) of Some v \<Rightarrow> Some v
                            | None \<Rightarrow> first_defined (drop (Suc k) raw)))"
    using assms(2) by (rule fill_both_nth)
  have single: "raw ! k = None \<and> (\<forall>j<length raw. j \<noteq> k \<longrightarrow> raw ! j \<noteq> None) \<and> 2 \<le> length raw
        \<longrightarrow> ?segs ! k = raw ! (if k = 0 then 1 else k - 1)"
  proof (intro impI, elim conjE)
    assume rk: "raw ! k = None" and others: "\<forall>j<length raw. j \<noteq> k \<longrightarrow> raw ! j \<noteq> None"
      and two: "2 \<le> length raw"
    show "?segs ! k = raw ! (if k = 0 then 1 else k - 1)"
    proof (cases k)
      case 0
      have "1 < length raw" using two by simp
      with others 0 have "raw ! 1 \<noteq> None" by (simp del: not_None_eq)
      then obtain v where v: "raw ! 1 = Some v" by blast
      have "drop (Suc 0) raw = raw ! 1 # drop 2 raw"
        using two by (simp add: Cons_nth_drop_Suc numeral_2_eq_2)
      then show ?thesis using n rk 0 v by simp
    next
      case (Suc j)
      have "j < length raw" "j \<noteq> k" using assms(2) Suc by simp_all
      with others have "raw ! j \<noteq> None" by (simp del: not_None_eq)
      then obtain v where v: "raw ! j = Some v" by blast
      have "take (Suc j) raw = take j raw @ [raw ! j]"
        using assms(2) Suc by (simp add: take_Suc_conv_app_nth)
      then show ?thesis using n rk Suc v by (simp add: last_defined_snoc)
    qed
  qed
  show ?thesis
    by (rule exI[of _ ?segs], intro conjI) (rule s l d n single)+
qed

section \<open>Properties of the edge cut propagator\<close>

lemma state_of_simps: "state_of (Done s) = s" "state_of (Raised e s) = s"
  by (simp_all add: state_of_def)

lemma frame_refl: "frame fi s s"
  by (simp add: frame_def)

lemma frame_trans: "frame fi s s' \<Longrightarrow> frame fi s' s'' \<Longrightarrow> frame fi s s''"
  unfolding frame_def by (auto simp: subset_eq)

lemma and_then_frame:
  assumes "frame fi s (state_of r)" and "\<And>t. r = Done t \<Longrightarrow> frame fi t (state_of (k t))"
  shows "frame fi s (state_of (and_then r k))"
proof (cases r)
  case (Done t)
  with assms(2) have "frame fi t (state_of (k t))" by simp
  moreover from assms(1) Done have "frame fi s t" by (simp add: state_of_def)
  ultimately show ?thesis using Done by (auto simp: and_then_def intro: frame_trans)
next
  case (Raised e t)
  with assms(1) show ?thesis by (simp add: and_then_def state_of_def)
qed

lemma frame_removal_add: "frame fi s (state_of (removal_add k s))"
  by (simp add: removal_add_def state_of_def frame_def split: option.splits)

lemma frame_removal_discard: "frame fi s (state_of (removal_discard k s))"
  by (simp add: removal_discard_def state_of_def frame_def split: option.splits)

lemma frame_register_in: "frame fi s (state_of (register_in k s))"
  by (simp add: register_in_def state_of_def frame_def split: sum.splits)

lemma frame_unregister_in: "frame fi s (state_of (unregister_in k s))"
  by (simp add: unregister_in_def state_of_def frame_def split: sum.splits)

lemma frame_append_track: "frame fi s (state_of (append_track k s))"
  by (simp add: append_track_def state_of_def frame_def nth_append)

lemma frame_register3: "frame fi s (state_of (register3 a b s))"
  unfolding register3_def
  by (intro and_then_frame frame_register_in)

lemma frame_propagate: "frame fi s (propagate f s)"
  by (simp add: propagate_def frame_def)

lemma frame_Done: "frame fi s t \<Longrightarrow> frame fi s (state_of (Done t))"
  by (simp add: state_of_def)

lemma frame_replace3: "frame fi s (state_of (replace3 fi a b c s))"
  by (simp add: replace3_def state_of_def frame_def nth_append)

lemma frame_mark_cut: "frame fi s (state_of (mark_cut cutplane p1 p2 j fi f l s))"
proof -
  let ?s = "s\<lparr>seen := seen s \<union> {fi, l, l + 1}\<rparr>"
  have a: "frame fi s ?s" by (auto simp: frame_def)
  have b: "\<And>p t. frame fi t (state_of (Done (t\<lparr>intersections := insert p (intersections t)\<rparr>)))"
    by (simp add: frame_def state_of_def)
  have "frame fi ?s (state_of (mark_cut cutplane p1 p2 j fi f l s))"
    unfolding mark_cut_def Let_def
    by (auto intro!: and_then_frame frame_removal_add b simp: state_of_simps frame_refl)
  with a show ?thesis by (rule frame_trans)
qed

lemma frame_split_cut: "frame fi s (state_of (split_cut prec cutplane cj cp j fi f s))"
  unfolding split_cut_def Let_def split_def
proof (rule and_then_frame[OF frame_removal_discard])
  fix t :: cstate
  let ?pts = "fst (usepointat (fst (usepointat (points t) cj prec)) cp prec)"
  let ?t = "t\<lparr>points := ?pts\<rparr>"
  have a: "frame fi t ?t" by (simp add: frame_def)
  show "frame fi t (state_of (and_then (and_then (and_then (and_then (and_then
             (unregister_in fi ?t)
             (replace3 fi (snd (usepointat (points t) cj prec), tnth f (j - 2), tnth f (j - 1))
                (snd (usepointat (points t) cj prec), tnth f (j - 1),
                 snd (usepointat (fst (usepointat (points t) cj prec)) cp prec))
                (snd (usepointat (points t) cj prec),
                 snd (usepointat (fst (usepointat (points t) cj prec)) cp prec), tnth f (j - 0))))
             (append_track fi))
             (append_track fi))
             (register3 fi (length (faces ?t))))
             (mark_cut cutplane (snd (usepointat (points t) cj prec))
                (snd (usepointat (fst (usepointat (points t) cj prec)) cp prec)) j fi f
                (length (faces ?t)))))"
    by (rule frame_trans[OF a])
       (intro and_then_frame frame_unregister_in frame_replace3 frame_append_track
          frame_register3 frame_mark_cut)
qed

lemma frame_split_axis: "frame fi s (state_of (split_axis prec p fi f e s))"
proof -
  let ?t = "s\<lparr>points := fst (usepointat (points s) p prec)\<rparr>"
  have a: "frame fi s ?t" by (simp add: frame_def)
  have b: "\<And>t. frame fi t (state_of (Done (t\<lparr>front := front t @ [e]\<rparr>)))"
    by (simp add: frame_def state_of_def)
  show ?thesis
    unfolding split_axis_def Let_def split_def
    by (rule frame_trans[OF a])
       (intro and_then_frame frame_unregister_in frame_replace3 frame_append_track
          frame_register3 b)
qed

lemma frame_cut_loop:
  "frame fi s (state_of (snd (cut_loop prec cutplane s1 s2 cuts fi f js cutted s)))"
  by (induction js arbitrary: cutted)
     (auto simp: frame_refl state_of_simps frame_split_cut split: option.splits)

lemma frame_cut_and_propagate:
  "frame fi s (state_of (cut_and_propagate prec cutplane s1 s2 cuts fi f c s))"
  unfolding cut_and_propagate_def split_def
  by (rule and_then_frame[OF frame_cut_loop]) (simp add: state_of_simps frame_refl frame_propagate)

lemma seen_mono_frame: "frame fi s s' \<Longrightarrow> x \<in> seen s \<Longrightarrow> x \<in> seen s'"
  by (auto simp: frame_def)

lemma frame_process_face:
  "frame fi s (state_of (process_face numprec cutplane s1 s2 prec fi f fp s)) \<and>
   fi \<in> seen (state_of (process_face numprec cutplane s1 s2 prec fi f fp s))"
proof -
  let ?s = "s\<lparr>seen := insert fi (seen s)\<rparr>"
  have a: "frame fi s ?s" by (auto simp: frame_def)
  have b: "frame fi ?s (state_of (process_face numprec cutplane s1 s2 prec fi f fp s))"
    unfolding process_face_def Let_def split_def
    by (auto intro!: and_then_frame frame_removal_add frame_cut_and_propagate
             simp: state_of_simps frame_refl)
  have "fi \<in> seen ?s" by simp
  with b have "fi \<in> seen (state_of (process_face numprec cutplane s1 s2 prec fi f fp s))"
    by (rule seen_mono_frame)
  moreover from a b have "frame fi s (state_of (process_face numprec cutplane s1 s2 prec fi f fp s))"
    by (rule frame_trans)
  ultimately show ?thesis by simp
qed

lemma settled_refl: "settled s s"
  by (simp add: settled_def)

lemma settled_trans: "settled s s' \<Longrightarrow> settled s' s'' \<Longrightarrow> settled s s''"
  unfolding settled_def
  apply (intro conjI)
      apply blast
     apply linarith
    apply (metis (no_types, lifting) order_less_le_trans subsetD)
   apply linarith
  apply (metis order_less_le_trans)
  done

lemma frame_settled: "frame fi s s' \<Longrightarrow> fi \<notin> seen s \<Longrightarrow> fi \<in> seen s' \<Longrightarrow> settled s s'"
  unfolding frame_def settled_def by metis

lemma settled_front: "settled (s\<lparr>front := x\<rparr>) t \<Longrightarrow> settled s t"
  by (simp add: settled_def)

lemma axis_point_None: "axis_point s1 s2 fp = None"
  by (simp add: axis_point_def Let_def)

lemma settled_step: "settled s (state_of (cut_edge_step numprec cutplane s1 s2 prec s))"
proof (rule settled_front[where x="butlast (front s)"])
  let ?s = "s\<lparr>front := butlast (front s)\<rparr>"
  show "settled ?s (state_of (cut_edge_step numprec cutplane s1 s2 prec s))"
  proof (cases "conn ?s (last (front s))")
    case None
    then show ?thesis by (simp add: cut_edge_step_def Let_def state_of_simps settled_refl)
  next
    case (Some fi)
    show ?thesis
    proof (cases "fi \<in> seen ?s")
      case True
      with Some show ?thesis by (simp add: cut_edge_step_def Let_def state_of_simps settled_refl)
    next
      case False
      have pf: "\<And>fp. settled ?s (state_of (process_face numprec cutplane s1 s2 prec fi (faces ?s ! fi) fp ?s))"
        using frame_process_face[of fi ?s numprec cutplane s1 s2 prec "faces ?s ! fi"] False
        by (blast intro: frame_settled)
      have pp: "settled ?s (propagate (faces ?s ! fi) (?s\<lparr>seen := insert fi (seen ?s)\<rparr>))"
        by (auto simp: settled_def propagate_def)
      show ?thesis
        using Some False pf pp
        by (simp add: cut_edge_step_def Let_def state_of_simps settled_refl axis_point_None
                 split: sum.splits)
    qed
  qed
qed

lemma run_empty: "front s = [] \<Longrightarrow> cut_edge_run n numprec cutplane s1 s2 prec s = Done s"
  by (cases n) simp_all

lemma run_add:
  "cut_edge_run (n + m) numprec cutplane s1 s2 prec s =
     (case cut_edge_run n numprec cutplane s1 s2 prec s of
        Done s' \<Rightarrow> cut_edge_run m numprec cutplane s1 s2 prec s'
      | Raised e s' \<Rightarrow> Raised e s')"
proof (induction n arbitrary: s)
  case 0
  then show ?case by simp
next
  case (Suc n)
  then show ?case by (simp add: run_empty split: result.splits)
qed

lemma settled_run: "settled s (state_of (cut_edge_run n numprec cutplane s1 s2 prec s))"
proof (induction n arbitrary: s)
  case 0
  then show ?case by (simp add: state_of_simps settled_refl)
next
  case (Suc n)
  show ?case
  proof (cases "front s = []")
    case True
    then show ?thesis by (simp add: state_of_simps settled_refl)
  next
    case False
    show ?thesis
    proof (cases "cut_edge_step numprec cutplane s1 s2 prec s")
      case (Done s')
      with settled_step[of s numprec cutplane s1 s2 prec] have "settled s s'" by (simp add: state_of_simps)
      from settled_trans[OF this Suc.IH[of s']] Done False show ?thesis by simp
    next
      case (Raised e s')
      with settled_step[of s numprec cutplane s1 s2 prec] False show ?thesis
        by (simp add: state_of_simps)
    qed
  qed
qed

text \<open>
  Claim C1. Take the state \<open>sa\<close> after at most \<open>n\<close> passes of the loop of \<open>cut_edge\<close> and the
  state \<open>sb\<close> after at most \<open>m\<close> further passes (the states at the raising line, when a
  pass raises). A face whose index is in \<open>seen\<close> at \<open>sa\<close> is the same face at \<open>sb\<close>, no
  entry of \<open>tracks\<close> is ever changed, and a face slot that the first \<open>n\<close> passes have
  written was not in \<open>seen\<close> at the start, is in \<open>seen\<close> at \<open>sa\<close> and is not written again:
  a face is split at most once.
\<close>

theorem cut_edge_faces_split_once:
  "let sa = state_of (cut_edge_run n numprec cutplane s1 s2 prec s);
       sb = state_of (cut_edge_run (n + m) numprec cutplane s1 s2 prec s)
   in seen sa \<subseteq> seen sb \<and>
      (\<forall>k<length (faces sa). k \<in> seen sa \<longrightarrow> faces sb ! k = faces sa ! k) \<and>
      (\<forall>k<length (tracks sa). tracks sb ! k = tracks sa ! k) \<and>
      (\<forall>k<length (faces s). faces sa ! k \<noteq> faces s ! k \<longrightarrow>
          k \<notin> seen s \<and> k \<in> seen sa \<and> faces sb ! k = faces sa ! k)"
proof -
  let ?sa = "state_of (cut_edge_run n numprec cutplane s1 s2 prec s)"
  let ?sb = "state_of (cut_edge_run (n + m) numprec cutplane s1 s2 prec s)"
  have a: "settled s ?sa" by (rule settled_run)
  have b: "settled ?sa ?sb"
  proof (cases "cut_edge_run n numprec cutplane s1 s2 prec s")
    case (Done s')
    then show ?thesis using settled_run[of s' m numprec cutplane s1 s2 prec]
      by (simp add: run_add state_of_simps)
  next
    case (Raised e s')
    then show ?thesis by (simp add: run_add state_of_simps settled_refl)
  qed
  have c: "\<forall>k<length (faces ?sa). k \<in> seen ?sa \<longrightarrow> faces ?sb ! k = faces ?sa ! k"
    using b unfolding settled_def by blast
  have d: "\<forall>k<length (faces s). faces ?sa ! k \<noteq> faces s ! k \<longrightarrow>
          k \<notin> seen s \<and> k \<in> seen ?sa \<and> faces ?sb ! k = faces ?sa ! k"
  proof (intro allI impI)
    fix k assume k: "k < length (faces s)" and ne: "faces ?sa ! k \<noteq> faces s ! k"
    from a k ne have 1: "k \<notin> seen s \<and> k \<in> seen ?sa" unfolding settled_def by blast
    from a k have "k < length (faces ?sa)" unfolding settled_def by linarith
    with c 1 show "k \<notin> seen s \<and> k \<in> seen ?sa \<and> faces ?sb ! k = faces ?sa ! k" by blast
  qed
  from a b c d show ?thesis unfolding Let_def settled_def by blast
qed

text \<open>
  Claim C9. A popped edge that is not a key of the connectivity map ends that branch and
  nothing else: the pass raises nothing and changes nothing but the front, and the loop
  goes on with the rest of the front.
\<close>

theorem missing_edge_skipped:
  assumes "front s \<noteq> []" and "conn s (last (front s)) = None"
  shows "cut_edge_step numprec cutplane s1 s2 prec s = Done (s\<lparr>front := butlast (front s)\<rparr>) \<and>
         cut_edge_run (Suc n) numprec cutplane s1 s2 prec s =
           cut_edge_run n numprec cutplane s1 s2 prec (s\<lparr>front := butlast (front s)\<rparr>) \<and>
         cut_edge_loop (Suc fuel) numprec cutplane s1 s2 prec s =
           cut_edge_loop fuel numprec cutplane s1 s2 prec (s\<lparr>front := butlast (front s)\<rparr>)"
proof -
  have "cut_edge_step numprec cutplane s1 s2 prec s = Done (s\<lparr>front := butlast (front s)\<rparr>)"
    using assms(2) by (simp add: cut_edge_step_def Let_def)
  then show ?thesis using assms(1) by simp
qed

section \<open>Evaluating concrete inputs\<close>

lemmas vec_defs = cross_def vlength_def dot_def normalize_def smul_def vadd_def vsub_def vneg_def
  solve3_def det3_def distance_def project_def noproject_def

lemma sqrt_le_iff: "0 \<le> y \<Longrightarrow> (sqrt x \<le> y) = (x \<le> y\<^sup>2)"
  by (metis real_sqrt_le_iff real_sqrt_abs abs_of_nonneg)

lemma sqrt_less_iff: "0 \<le> y \<Longrightarrow> (sqrt x < y) = (x < y\<^sup>2)"
  by (metis real_sqrt_less_iff real_sqrt_abs abs_of_nonneg)

lemma le_sqrt_iff: "0 \<le> y \<Longrightarrow> (y \<le> sqrt x) = (y\<^sup>2 \<le> x)"
  by (metis real_sqrt_le_iff real_sqrt_abs abs_of_nonneg)

lemma less_sqrt_iff: "0 \<le> y \<Longrightarrow> (y < sqrt x) = (y\<^sup>2 < x)"
  by (metis real_sqrt_less_iff real_sqrt_abs abs_of_nonneg)

lemma sqrt_mult_le_one: "0 < c \<Longrightarrow> (sqrt x * c \<le> 1) = (x \<le> (1 / c)\<^sup>2)"
  by (simp add: pos_le_divide_eq[symmetric] sqrt_le_iff)

lemma sqrt_mult_less_one: "0 < c \<Longrightarrow> (sqrt x * c < 1) = (x < (1 / c)\<^sup>2)"
  by (simp add: pos_less_divide_eq[symmetric] sqrt_less_iff)

lemma one_le_sqrt_mult: "0 < c \<Longrightarrow> (1 \<le> sqrt x * c) = ((1 / c)\<^sup>2 \<le> x)"
  by (simp add: pos_divide_le_eq[symmetric] le_sqrt_iff)

lemma one_less_sqrt_mult: "0 < c \<Longrightarrow> (1 < sqrt x * c) = ((1 / c)\<^sup>2 < x)"
  by (simp add: pos_divide_less_eq[symmetric] less_sqrt_iff)

lemmas sqrt_cmp = sqrt_le_iff sqrt_less_iff le_sqrt_iff less_sqrt_iff sqrt_mult_le_one
  sqrt_mult_less_one one_le_sqrt_mult one_less_sqrt_mult

section \<open>Concrete separators\<close>

text \<open>
  Claim C2 as stated fails on the code. An open polyline of six points along the x axis
  whose middle three offsets are parallel: entries 1 and 2 are undefined, and entry 2,
  next to the defined entry 3, is completed from entry 0, two vertices before it.
\<close>

theorem separators_nearest_counterexample:
  "separators_raw (1/1000) [(0,0,0),(1,0,0),(2,0,0),(3,0,0),(4,0,0),(5,0,0)] [0,1,2,3,4,5]
       [(0,1,0),(0,0,1),(0,0,1),(0,0,1),(0,1,0)]
     = Inr [Some ((1, 1, 1), (0, - (1 / sqrt 2), 1 / sqrt 2), (1, 0, 0)), None, None,
            Some ((4, 1, 1), (0, 1 / sqrt 2, - (1 / sqrt 2)), (- 1, 0, 0))] \<and>
   separators (1/1000) [(0,0,0),(1,0,0),(2,0,0),(3,0,0),(4,0,0),(5,0,0)] [0,1,2,3,4,5]
       [(0,1,0),(0,0,1),(0,0,1),(0,0,1),(0,1,0)]
     = Inr [Some ((1, 1, 1), (0, - (1 / sqrt 2), 1 / sqrt 2), (1, 0, 0)),
            Some ((1, 1, 1), (0, - (1 / sqrt 2), 1 / sqrt 2), (1, 0, 0)),
            Some ((1, 1, 1), (0, - (1 / sqrt 2), 1 / sqrt 2), (1, 0, 0)),
            Some ((4, 1, 1), (0, 1 / sqrt 2, - (1 / sqrt 2)), (- 1, 0, 0))] \<and>
   ((1, 1, 1), (0, - (1 / sqrt 2), 1 / sqrt 2), (1, 0, 0)) \<noteq>
     (((4, 1, 1), (0, 1 / sqrt 2, - (1 / sqrt 2)), (- 1, 0, 0)) :: sep)"
  by (simp add: separators_def separators_raw_def separator_at_def separator_plane_def Let_def vec_defs
       upt_conv_Cons fill_forward_def fill_backward_def)

text \<open>
  An instance of C2 as amended: a closed triangular loop whose first two offsets are
  parallel. Entry 0 is the only undefined one and ends with the plane of entry 1.
\<close>

theorem separators_completion_witness:
  "separators_raw (1/1000) [(0,0,0),(1,0,0),(0,1,0)] [0,1,2,0] [(0,0,1),(0,0,1),(0,1,0)]
     = Inr [None, Some ((0, 2, 1), (0, - (1 / sqrt 2), 1 / sqrt 2), (- 1, 0, 0)),
            Some ((0, 1, 1), (0, 1 / sqrt 2, - (1 / sqrt 2)), (1, 0, 0))] \<and>
   (\<exists>segs. separators (1/1000) [(0,0,0),(1,0,0),(0,1,0)] [0,1,2,0] [(0,0,1),(0,0,1),(0,1,0)] = Inr segs \<and>
      length segs = 3 \<and>
      degenerate (1/1000) [0,1,2,0] [(0,0,1),(0,0,1),(0,1,0)] 0 \<and>
      segs ! 0 = Some ((0, 2, 1), (0, - (1 / sqrt 2), 1 / sqrt 2), (- 1, 0, 0)))"
proof -
  have raw: "separators_raw (1/1000) [(0,0,0),(1,0,0),(0,1,0)] [0,1,2,0] [(0,0,1),(0,0,1),(0,1,0)]
     = Inr [None, Some ((0, 2, 1), (0, - (1 / sqrt 2), 1 / sqrt 2), (- 1, 0, 0)),
            Some ((0, 1, 1), (0, 1 / sqrt 2, - (1 / sqrt 2)), (1, 0, 0))]"
    by (simp add: separators_raw_def separator_at_def separator_plane_def Let_def vec_defs upt_conv_Cons)
  have k: "0 < length [None, Some (((0, 2, 1), (0, - (1 / sqrt 2), 1 / sqrt 2), (- 1, 0, 0))::sep),
            Some ((0, 1, 1), (0, 1 / sqrt 2, - (1 / sqrt 2)), (1, 0, 0))]" by simp
  have others: "\<forall>j<length [None, Some (((0, 2, 1), (0, - (1 / sqrt 2), 1 / sqrt 2), (- 1, 0, 0))::sep),
            Some ((0, 1, 1), (0, 1 / sqrt 2, - (1 / sqrt 2)), (1, 0, 0))]. j \<noteq> 0 \<longrightarrow>
          [None, Some (((0, 2, 1), (0, - (1 / sqrt 2), 1 / sqrt 2), (- 1, 0, 0))::sep),
            Some ((0, 1, 1), (0, 1 / sqrt 2, - (1 / sqrt 2)), (1, 0, 0))] ! j \<noteq> None"
    by (auto simp: less_Suc_eq)
  from separators_completion[OF raw k] others raw show ?thesis
    by (auto simp: numeral_3_eq_3)
qed

section \<open>Properties of the policies\<close>

text \<open>
  Claim C7 fails on the code. \<open>cut_angle\<close> never binds \<open>n\<close>; in the module as written the
  read of \<open>n\<close> raises \<open>NameError\<close>, whatever the arguments. Were \<open>n\<close> bound to the normalized
  bisector, the value would be the one the claim gives (\<open>cut_angle_bound\<close>).
\<close>

theorem cut_angle_raises: "cut_angle module_globals depth fn1 fn2 = Inl NameError"
  by (simp add: cut_angle_def module_globals_def)

lemma cut_angle_bound:
  "g_n g = Some (normalize (vadd fn1 fn2)) \<Longrightarrow> dot fn1 (normalize (vadd fn1 fn2)) \<noteq> 0 \<Longrightarrow>
   cut_angle g depth fn1 fn2 = Inr (cut_angle_spec depth fn1 fn2)"
  by (simp add: cut_angle_def cut_angle_spec_def Let_def)

lemma cut_names: "''cut_'' @ name \<in> set module_names \<longleftrightarrow>
   name \<in> {''width'', ''distance'', ''depth'', ''angle'', ''line'', ''edge'', ''corner''}"
  by (auto simp: module_names_def)

text \<open>
  Claim C5, as amended. \<open>interpretcutter\<close> returns a callable exactly for a callable and
  for a tuple of at least two elements whose first is a string \<open>s\<close> with \<open>'cut_'+s\<close> bound
  in the module: the four policies and also \<open>line\<close>, \<open>edge\<close> and \<open>corner\<close> (\<open>accepted\<close>);
  for every other value it raises, and so does \<open>planeoffsets\<close>, with the same error, on
  its first statement. Neither function writes to the mesh: \<open>interpretcutter\<close> takes
  none, \<open>planeoffsets\<close> returns the offsets only.
\<close>

theorem interpretcutter_accepts:
  "((\<exists>f. interpretcutter cutter = Inr f) \<longleftrightarrow> accepted cutter) \<and>
   ((\<exists>e. interpretcutter cutter = Inl e \<and> planeoffsets call m line cutter = Inl e)
      \<longleftrightarrow> \<not> accepted cutter)"
proof -
  have a: "(\<exists>f. interpretcutter cutter = Inr f) \<longleftrightarrow> accepted cutter"
    unfolding accepted_def interpretcutter_def cut_names
    by (simp split: pyval.splits list.splits)
  have b: "(\<exists>e. interpretcutter cutter = Inl e) \<longleftrightarrow> \<not> accepted cutter"
    unfolding accepted_def interpretcutter_def cut_names
    by (simp split: pyval.splits list.splits)
  have c: "\<And>e. interpretcutter cutter = Inl e \<Longrightarrow> planeoffsets call m line cutter = Inl e"
    by (simp add: planeoffsets_def)
  from a b c show ?thesis by blast
qed

text \<open>
  Claim C5 as stated fails on the code: the tuple \<open>('line', 0.1)\<close> names no built-in policy
  and is accepted, the closure being built over the function \<open>cut_line\<close>.
\<close>

theorem interpretcutter_counterexample:
  "interpretcutter (PyTuple [PyStr ''line'', PyNum (1/10)]) = Inr (Closure ''cut_line'' (PyNum (1/10)))
   \<and> ''line'' \<notin> set builtin_policies"
  by (simp add: interpretcutter_def module_names_def builtin_policies_def)

section \<open>Concrete passes of the edge cut propagator\<close>

lemmas step_defs = cut_edge_step_def faceheight_def facepoints_def height_at_def tnth_def vec_defs
     Let_def axis_point_def process_face_def intersection_edge_plane_def clean_cuts_def tupd_def
     cut_and_propagate_def outside_span_def split_cut_def removal_discard_def removal_add_def
     and_then_def usepointat_def unregister_in_def register_in_def register3_def registerface_def
     unregisterface_def face_edges_def replace3_def append_track_def mark_cut_def propagate_def
     sqrt_cmp min_def power2_eq_square

lemma tri_step:
  "cut_edge_step (1 / 10 ^ 13) ((1, 0, 0), (- 1, 0, 0)) None None (1 / 100) tri = Done tri_cut"
  by (simp add: tri_def tri_cut_def step_defs eval_nat_numeral fun_upd_twist insert_commute)

lemma tri_cut_step:
  "cut_edge_step (1 / 10 ^ 13) ((1, 0, 0), (- 1, 0, 0)) None None (1 / 100) tri_cut
     = Done (tri_cut\<lparr>front := [(0, 2), (1, 0)]\<rparr>)"
  by (simp add: tri_cut_def cut_edge_step_def Let_def)

text \<open>
  An instance of C1: the first pass splits face 0 of the triangle (its slot is written,
  and its index enters \<open>seen\<close>); the second pass leaves it alone.
\<close>

theorem cut_edge_faces_split_once_witness:
  "faces (state_of (cut_edge_run 1 (1 / 10 ^ 13) ((1, 0, 0), (- 1, 0, 0)) None None (1 / 100) tri)) ! 0
     \<noteq> faces tri ! 0 \<and>
   0 \<notin> seen tri \<and>
   0 \<in> seen (state_of (cut_edge_run 1 (1 / 10 ^ 13) ((1, 0, 0), (- 1, 0, 0)) None None (1 / 100) tri)) \<and>
   faces (state_of (cut_edge_run (1 + 1) (1 / 10 ^ 13) ((1, 0, 0), (- 1, 0, 0)) None None (1 / 100) tri)) ! 0
     = faces (state_of (cut_edge_run 1 (1 / 10 ^ 13) ((1, 0, 0), (- 1, 0, 0)) None None (1 / 100) tri)) ! 0"
proof -
  have r1: "cut_edge_run 1 (1 / 10 ^ 13) ((1, 0, 0), (- 1, 0, 0)) None None (1 / 100) tri = Done tri_cut"
    using tri_step by (simp add: tri_def)
  have ne: "faces tri_cut ! 0 \<noteq> faces tri ! 0" by (simp add: tri_def tri_cut_def)
  have k: "0 < length (faces tri)" by (simp add: tri_def)
  from cut_edge_faces_split_once[of 1 "1 / 10 ^ 13" "((1, 0, 0), (- 1, 0, 0))" None None "1 / 100" tri 1]
  show ?thesis
    unfolding Let_def using r1 ne k by (simp add: state_of_simps)
qed

text \<open>
  An instance of C9: the edge \<open>(2, 1)\<close> popped from the front of \<open>tri_cut\<close> is a boundary
  edge, owned by no face.
\<close>

theorem missing_edge_skipped_witness:
  "front tri_cut \<noteq> [] \<and> conn tri_cut (last (front tri_cut)) = None \<and>
   cut_edge_step (1 / 10 ^ 13) ((1, 0, 0), (- 1, 0, 0)) None None (1 / 100) tri_cut
     = Done (tri_cut\<lparr>front := [(0, 2), (1, 0)]\<rparr>) \<and>
   cut_edge_loop (Suc 9) (1 / 10 ^ 13) ((1, 0, 0), (- 1, 0, 0)) None None (1 / 100) tri_cut
     = cut_edge_loop 9 (1 / 10 ^ 13) ((1, 0, 0), (- 1, 0, 0)) None None (1 / 100)
         (tri_cut\<lparr>front := [(0, 2), (1, 0)]\<rparr>)"
proof -
  have f: "front tri_cut \<noteq> []" and c: "conn tri_cut (last (front tri_cut)) = None"
    and b: "butlast (front tri_cut) = [(0, 2), (1, 0)]"
    by (simp_all add: tri_cut_def)
  from missing_edge_skipped[OF f c, of "1 / 10 ^ 13" "((1, 0, 0), (- 1, 0, 0))" None None "1 / 100" 9 9]
  show ?thesis using f c b by (simp only: simp_thms)
qed

text \<open>
  Claim C3 fails on the code. The axis of the separator \<open>s2\<close> below crosses the face of
  \<open>tri\<close> at \<open>(1/2, 1/2, 0)\<close>, farther than \<open>prec\<close> from the three corners:
  \<open>intersection_axis_face\<close> finds the point, but its result is dropped, \<open>p\<close> stays
  \<open>None\<close>, and the pass goes on to the cut plane exactly as it does with no separator
  (\<open>tri_step\<close>): no point is located at \<open>(1/2, 1/2, 0)\<close> and the face is not split
  around it.
\<close>

theorem axis_split_never_taken:
  "intersection_axis_face ((1 / 2, 1 / 2, - 1), (0, 0, 1)) ((0, 0, 0), (2, 0, 0), (0, 2, 0))
     = Some (1 / 2, 1 / 2, 0) \<and>
   distance (1 / 2, 1 / 2, 0) (0, 0, 0) > 1 / 100 \<and>
   distance (1 / 2, 1 / 2, 0) (2, 0, 0) > 1 / 100 \<and>
   distance (1 / 2, 1 / 2, 0) (0, 2, 0) > 1 / 100 \<and>
   axis_point None (Some ((1 / 2, 1 / 2, - 1), (0, 1, 0), (0, 0, 1))) ((0, 0, 0), (2, 0, 0), (0, 2, 0))
     = None \<and>
   cut_edge_step (1 / 10 ^ 13) ((1, 0, 0), (- 1, 0, 0)) None
       (Some ((1 / 2, 1 / 2, - 1), (0, 1, 0), (0, 0, 1))) (1 / 100) tri
     = Done tri_cut"
  by (simp add: tri_def tri_cut_def step_defs intersection_axis_face_def solve3_cols_def
        eval_nat_numeral fun_upd_twist insert_commute)

text \<open>
  Claim C8 fails on the code. In the module as written the name \<open>i\<close> is unbound, so
  \<open>cut_edge\<close> raises on the line that builds the front, before any pass of the loop
  (\<open>IndexError\<close> comes first when \<open>edge[0]\<close> is not a point of the mesh). Were \<open>i\<close> bound
  to an index of the pair, the front would hold the edge in both directions
  (\<open>cut_edge_init_seeds\<close>).
\<close>

theorem cut_edge_raises:
  "cut_edge fuel module_globals numprec m edge offset s1 s2 cn prec
     = Some (Inl (if fst edge < length (points m) then NameError else IndexError))"
  by (simp add: cut_edge_def cut_edge_init_def module_globals_def Let_def)

lemma cut_edge_init_seeds:
  assumes "g_i g = Some i" and "i = - 1 \<or> i = 0 \<or> i = 1" and "a < length (points m)"
  shows "cut_edge_init g m (a, b) offset cn =
           Inr ((vadd (points m ! a) offset, vneg (normalize offset)),
                mesh.extend m
                  \<lparr>conn = cn, seen = {},
                   front = (if i = 0 then [(a, b), (b, a)] else [(b, a), (a, b)]),
                   intersections = {}, removal = g_removal g\<rparr>)"
  using assms by (auto simp: cut_edge_init_def pair_nth_def Let_def)

section \<open>Properties of the segment simplifier\<close>




lemma removefaces_loop_total:
  "(\<forall>i\<in>set is. (crit i = Inr True \<or> crit i = Inr False) \<and> i < length fs \<and> i < length ts) \<Longrightarrow>
   \<exists>r. removefaces_loop fs ts crit is nf nt = Inr r"
  by (induction "is" arbitrary: nf nt) auto

text \<open>
  The phase returns on a mesh with as many tracks as faces whose merged faces, the
  removed ones apart, index existing points.
\<close>

lemma cut_line_simplify_returns:
  assumes "length (tracks m) = length (faces m)"
    and "\<forall>i<length (faces m). i \<in> rmv \<or>
           (case merge_face (phase_merges simp m result prec) (faces m ! i) of
              (a, b, c) \<Rightarrow> a < length (points m) \<and> b < length (points m) \<and> c < length (points m))"
  shows "\<exists>r. cut_line_simplify simp m result rmv prec = Inr r"
proof -
  let ?mg = "phase_merges simp m result prec"
  let ?m1 = "m\<lparr>faces := map (merge_face ?mg) (faces m)\<rparr>"
  have "\<forall>i\<in>set [0..<length (faces ?m1)].
          (removal_crit ?m1 rmv prec i = Inr True \<or> removal_crit ?m1 rmv prec i = Inr False)
          \<and> i < length (faces ?m1) \<and> i < length (tracks ?m1)"
  proof
    fix i assume "i \<in> set [0..<length (faces ?m1)]"
    then have i: "i < length (faces m)" by simp
    obtain a b c where f: "merge_face ?mg (faces m ! i) = (a, b, c)"
      by (cases "merge_face ?mg (faces m ! i)") auto
    from assms(2) i have "i \<in> rmv \<or>
           (case merge_face ?mg (faces m ! i) of
              (a, b, c) \<Rightarrow> a < length (points m) \<and> b < length (points m) \<and> c < length (points m))"
      by (simp only:)
    then have "i \<in> rmv \<or> facepoints ?m1 i = Inr (points m ! a, points m ! b, points m ! c)"
      using i f by (auto simp: facepoints_def)
    then have "removal_crit ?m1 rmv prec i = Inr True \<or> removal_crit ?m1 rmv prec i = Inr False"
      by (cases "i \<in> rmv") (auto simp: removal_crit_def faceheight_def)
    then show "(removal_crit ?m1 rmv prec i = Inr True \<or> removal_crit ?m1 rmv prec i = Inr False)
          \<and> i < length (faces ?m1) \<and> i < length (tracks ?m1)"
      using i assms(1) by simp
  qed
  from removefaces_loop_total[OF this, of "[]" "[]"]
  obtain r where "removefaces_loop (faces ?m1) (tracks ?m1) (removal_crit ?m1 rmv prec)
                    [0..<length (faces ?m1)] [] [] = Inr r" by blast
  then show ?thesis
    by (cases r) (simp add: cut_line_simplify_def phase_merges_def removefaces_def Let_def split_def)
qed



section \<open>Properties of chamfer and of the plane offsets\<close>

lemma dict_set_nonempty: "dict_set kvs k v \<noteq> []"
  by (cases kvs) (auto split: if_splits)

lemma set_corner_nonempty: "set_corner normals p off corners = Inr c \<Longrightarrow> c \<noteq> []"
  by (auto simp: set_corner_def dict_set_nonempty split: if_splits)

lemma chamfer_offsets_corners:
  "chamfer_offsets call m cutter normals lines offs corners = Inr (offs', corners') \<Longrightarrow>
   (lines \<noteq> [] \<or> corners \<noteq> []) \<Longrightarrow> corners' \<noteq> []"
proof (induction lines arbitrary: offs corners)
  case Nil
  then show ?case by simp
next
  case (Cons line lines)
  from Cons.prems(1) obtain offsets c1 c2 where
    c2: "set_corner normals (last line) (last offsets) c1 = Inr c2"
    and rest: "chamfer_offsets call m cutter normals lines (offs @ [offsets]) c2 = Inr (offs', corners')"
    by (auto split: sum.splits if_splits)
  from set_corner_nonempty[OF c2] have "c2 \<noteq> []" .
  with Cons.IH[OF rest] show ?case by simp
qed

text \<open>
  Claim C4 fails on the code. \<open>chamfer\<close> returns only when \<open>suites(edges)\<close> is empty, and
  then the mesh is as it was; on any other input it raises (at the latest on the call
  of \<open>cut_corner\<close>). No group is ever appended, \<open>'junction'\<close> or other, and no face.
\<close>

theorem chamfer_leaves_mesh:
  "(chamfer vertexnormals suites call cut_fn m edges cutter = Inr m') = (suites edges = [] \<and> m' = m)"
proof (cases "suites edges")
  case Nil
  then show ?thesis by (auto simp: chamfer_def)
next
  case (Cons line lines)
  have "chamfer vertexnormals suites call cut_fn m edges cutter \<noteq> Inr m'"
  proof (cases "chamfer_offsets call m cutter (vertexnormals m) (suites edges) [] []")
    case (Inl e)
    then show ?thesis by (simp add: chamfer_def)
  next
    case (Inr r)
    obtain offs corners where r: "r = (offs, corners)" by (cases r) auto
    from chamfer_offsets_corners[OF Inr[unfolded r]] Cons have "corners \<noteq> []" by simp
    then obtain kv rest where "corners = kv # rest" by (cases corners) auto
    with Inr r show ?thesis by (cases kv) (simp add: chamfer_def)
  qed
  with Cons show ?thesis by simp
qed

text \<open>
  A cutter that \<open>interpretcutter\<close> refuses makes \<open>planeoffsets\<close> raise the same error on
  its first statement.
\<close>

lemma planeoffsets_raises_first:
  "interpretcutter cutter = Inl e \<Longrightarrow> planeoffsets call m line cutter = Inl e"
  by (simp add: planeoffsets_def)

text \<open>
  In the module as written \<open>cut_line\<close> raises before its loop: it never reaches the
  segment simplifier.
\<close>

lemma cut_line_start_raises: "cut_line_start module_globals mprec m line offsets \<noteq> Inr r"
  by (simp add: cut_line_start_def module_globals_def Let_def split: sum.splits)

end
